theory Spec2Isabelle
  imports Main "HOL-Library.Word" "HOL-Library.AList"
begin

unbundle bit_operations_syntax

section \<open>Strings as the program uses them\<close>

text \<open>
  A Python \<open>str\<close> is modelled as a \<open>string\<close>; every \<open>char\<close> stands for the code point of
  the same number (0 to 255).  \<open>str.isspace\<close> on these code points is true for the characters
  9 to 13, 28 to 32, 133 and 160.
\<close>

definition isspace :: "char \<Rightarrow> bool" where
  "isspace c = (of_char c \<in> {9, 10, 11, 12, 13, 28, 29, 30, 31, 32, 133, 160 :: nat})"

definition lstrip :: "string \<Rightarrow> string" where
  "lstrip s = dropWhile isspace s"

definition rstrip :: "string \<Rightarrow> string" where
  "rstrip s = rev (dropWhile isspace (rev s))"

text \<open>\<open>s.strip()\<close>\<close>

definition strip :: "string \<Rightarrow> string" where
  "strip s = rstrip (lstrip s)"

text \<open>\<open>s.lstrip("@")\<close>\<close>

definition lstrip_at :: "string \<Rightarrow> string" where
  "lstrip_at s = dropWhile (\<lambda>c. c = CHR ''@'') s"

text \<open>
  \<open>s.lower()\<close>: the letters A to Z and the Latin-1 capitals (192 to 222 without 215) move up
  by 32; every other code point below 256 is left as it is.
\<close>

definition latin1_small :: string where
  "latin1_small =
     [CHR 0xE0, CHR 0xE1, CHR 0xE2, CHR 0xE3, CHR 0xE4, CHR 0xE5, CHR 0xE6, CHR 0xE7,
      CHR 0xE8, CHR 0xE9, CHR 0xEA, CHR 0xEB, CHR 0xEC, CHR 0xED, CHR 0xEE, CHR 0xEF,
      CHR 0xF0, CHR 0xF1, CHR 0xF2, CHR 0xF3, CHR 0xF4, CHR 0xF5, CHR 0xF6, CHR 0xF7,
      CHR 0xF8, CHR 0xF9, CHR 0xFA, CHR 0xFB, CHR 0xFC, CHR 0xFD, CHR 0xFE]"

definition lower_char :: "char \<Rightarrow> char" where
  "lower_char c =
     (let n = (of_char c :: nat)
      in if 65 \<le> n \<and> n \<le> 90 then ''abcdefghijklmnopqrstuvwxyz'' ! (n - 65)
         else if 192 \<le> n \<and> n \<le> 222 \<and> n \<noteq> 215 then latin1_small ! (n - 192)
         else c)"

definition lower :: "string \<Rightarrow> string" where
  "lower s = map lower_char s"

text \<open>\<open>s.endswith(t)\<close>\<close>

definition endswith :: "string \<Rightarrow> string \<Rightarrow> bool" where
  "endswith s t = (length t \<le> length s \<and> drop (length s - length t) s = t)"

text \<open>\<open>s.startswith(t)\<close>\<close>

fun startswith :: "string \<Rightarrow> string \<Rightarrow> bool" where
  "startswith s [] = True"
| "startswith [] (c # t) = False"
| "startswith (d # s) (c # t) = (d = c \<and> startswith s t)"

text \<open>
  \<open>s.replace(old, "")\<close> for a non-empty \<open>old\<close>: a scan from the left that drops every
  occurrence it meets and goes on behind it.  (With an empty \<open>old\<close> and an empty replacement
  Python returns \<open>s\<close>.)
\<close>

fun replace_del :: "string \<Rightarrow> string \<Rightarrow> string" where
  "replace_del [] old = []"
| "replace_del (c # cs) old =
     (if old = [] then c # cs
      else if startswith (c # cs) old then replace_del (drop (length old - 1) cs) old
      else c # replace_del cs old)"

section \<open>Text helpers\<close>

definition SEPARATOR :: string where
  "SEPARATOR = [CHR 0x0A, CHR 0x0A] @ ''--------------------------------'' @ [CHR 0x0A]"

definition apply_textdelete :: "string \<Rightarrow> string \<Rightarrow> string" where
  "apply_textdelete text textdelete =
     (if textdelete = [] then text else strip (replace_del text textdelete))"

definition append_caption :: "string \<Rightarrow> string \<Rightarrow> string" where
  "append_caption clean_text caption =
     (let cap = strip caption in
      if cap = [] then strip clean_text
      else let base = strip clean_text in
        if base = [] then cap
        else strip (base @ SEPARATOR @ cap))"


text \<open>\<open>_norm_ch\<close>: \<open>(s or "").strip().lstrip("@").strip()\<close>\<close>

definition norm_ch :: "string \<Rightarrow> string" where
  "norm_ch s = strip (lstrip_at (strip s))"

text \<open>\<open>_norm_session_name\<close>\<close>

definition norm_session_name :: "string \<Rightarrow> string" where
  "norm_session_name s0 =
     (let s = strip s0 in
      if s = [] then []
      else if endswith s ''.session'' then take (length s - 8) s
      else s)"

text \<open>\<open>str(n)\<close> for an integer, as the f-strings print it.\<close>

fun str_nat :: "nat \<Rightarrow> string" where
  "str_nat n =
     (if n < 10 then [''0123456789'' ! n] else str_nat (n div 10) @ [''0123456789'' ! (n mod 10)])"

declare str_nat.simps [simp del]

definition str_int :: "int \<Rightarrow> string" where
  "str_int i = (if i < 0 then CHR ''-'' # str_nat (nat (- i)) else str_nat (nat i))"

section \<open>SHA-1 and the fingerprints\<close>

text \<open>
  \<open>hashlib.sha1(s.encode("utf-8")).hexdigest()\<close>.  Bytes are numbers below 256; the code
  points of a \<open>string\<close> are below 256 too, so their UTF-8 form has one or two bytes.
\<close>

type_synonym w32 = "32 word"

definition utf8_char :: "char \<Rightarrow> nat list" where
  "utf8_char c =
     (let n = (of_char c :: nat)
      in if n < 128 then [n] else [192 + n div 64, 128 + n mod 64])"

definition utf8 :: "string \<Rightarrow> nat list" where
  "utf8 s = concat (map utf8_char s)"

definition be32 :: "nat list \<Rightarrow> w32" where
  "be32 bs = of_nat (foldl (\<lambda>acc b. acc * 256 + b) 0 bs)"

definition be64_bytes :: "nat \<Rightarrow> nat list" where
  "be64_bytes n = map (\<lambda>i. (n div 256 ^ (7 - i)) mod 256) [0..<8]"

definition sha1_pad :: "nat list \<Rightarrow> nat list" where
  "sha1_pad m =
     m @ [128] @ replicate ((119 - length m mod 64) mod 64) 0 @ be64_bytes (8 * length m)"

function chunks :: "nat \<Rightarrow> 'a list \<Rightarrow> 'a list list" where
  "chunks n xs = (if n = 0 \<or> xs = [] then [] else take n xs # chunks n (drop n xs))"
  by pat_completeness auto
termination
  by (relation "measure (\<lambda>(n, xs). length xs)") auto

declare chunks.simps [simp del]

fun expand :: "nat \<Rightarrow> w32 list \<Rightarrow> w32 list" where
  "expand 0 w = w"
| "expand (Suc k) w =
     (let n = length w
      in expand k
           (w @ [word_rotl 1 (w ! (n - 3) XOR w ! (n - 8) XOR w ! (n - 14) XOR w ! (n - 16))]))"

definition sha1_f :: "nat \<Rightarrow> w32 \<Rightarrow> w32 \<Rightarrow> w32 \<Rightarrow> w32" where
  "sha1_f t b c d =
     (if t < 20 then (b AND c) OR (NOT b AND d)
      else if t < 40 then b XOR c XOR d
      else if t < 60 then (b AND c) OR (b AND d) OR (c AND d)
      else b XOR c XOR d)"

definition sha1_k :: "nat \<Rightarrow> w32" where
  "sha1_k t =
     (if t < 20 then 0x5A827999 else if t < 40 then 0x6ED9EBA1
      else if t < 60 then 0x8F1BBCDC else 0xCA62C1D6)"

type_synonym sha1_state = "w32 \<times> w32 \<times> w32 \<times> w32 \<times> w32"

definition sha1_round :: "w32 list \<Rightarrow> nat \<Rightarrow> sha1_state \<Rightarrow> sha1_state" where
  "sha1_round w t s =
     (case s of (a, b, c, d, e) \<Rightarrow>
        (word_rotl 5 a + sha1_f t b c d + e + sha1_k t + w ! t, a, word_rotl 30 b, c, d))"

definition sha1_block :: "sha1_state \<Rightarrow> nat list \<Rightarrow> sha1_state" where
  "sha1_block h blk =
     (let w = expand 64 (map be32 (chunks 4 blk))
      in case (h, fold (sha1_round w) [0..<80] h) of
           ((h0, h1, h2, h3, h4), (a, b, c, d, e)) \<Rightarrow>
             (h0 + a, h1 + b, h2 + c, h3 + d, h4 + e))"

definition sha1_init :: sha1_state where
  "sha1_init = (0x67452301, 0xEFCDAB89, 0x98BADCFE, 0x10325476, 0xC3D2E1F0)"

definition sha1 :: "nat list \<Rightarrow> sha1_state" where
  "sha1 m = foldl sha1_block sha1_init (chunks 64 (sha1_pad m))"

definition hexdigit :: "nat \<Rightarrow> char" where
  "hexdigit n = ''0123456789abcdef'' ! (n mod 16)"

definition hex32 :: "w32 \<Rightarrow> string" where
  "hex32 w = map (\<lambda>i. hexdigit (unat (drop_bit (4 * (7 - i)) w))) [0..<8]"

definition hexdigest :: "sha1_state \<Rightarrow> string" where
  "hexdigest s =
     (case s of (a, b, c, d, e) \<Rightarrow> hex32 a @ hex32 b @ hex32 c @ hex32 d @ hex32 e)"

definition sha1_hex :: "string \<Rightarrow> string" where
  "sha1_hex s = hexdigest (sha1 (utf8 s))"

text \<open>\<open>_bot_key\<close>: the first 16 hex digits of the SHA-1 of the stripped token.\<close>

definition bot_key :: "string \<Rightarrow> string" where
  "bot_key tok = take 16 (sha1_hex (strip tok))"

text \<open>
  \<open>_job_id\<close>: the five normalized parts that its f-string joins with \<open>|\<close>, and the first
  16 hex digits of the SHA-1 of the joined string.
\<close>

definition job_tuple ::
  "string \<Rightarrow> string \<Rightarrow> string \<Rightarrow> string \<Rightarrow> string
    \<Rightarrow> string \<times> string \<times> string \<times> string \<times> string" where
  "job_tuple poll post post_by post_sess bot_token =
     (norm_ch poll, norm_ch post,
      lower (if post_by = [] then ''user'' else post_by),
      lower (norm_session_name post_sess),
      (if bot_token \<noteq> [] then bot_key bot_token else []))"

definition job_id_raw :: "string \<times> string \<times> string \<times> string \<times> string \<Rightarrow> string" where
  "job_id_raw t =
     (case t of (a, b, c, d, e) \<Rightarrow> a @ ''|'' @ b @ ''|'' @ c @ ''|'' @ d @ ''|'' @ e)"

definition job_id_of :: "string \<Rightarrow> string \<Rightarrow> string \<Rightarrow> string \<Rightarrow> string \<Rightarrow> string" where
  "job_id_of poll post post_by post_sess bot_token =
     take 16 (sha1_hex (job_id_raw (job_tuple poll post post_by post_sess bot_token)))"

section \<open>Data model\<close>

text \<open>
  A value read with \<open>job.get("last_ok_id")\<close>: an integer (or anything \<open>int()\<close> reads as
  one), a missing key, or a value \<open>int()\<close> refuses.  \<open>cursor_of\<close> is
  \<open>int(job.get("last_ok_id") or 0)\<close> with its \<open>except: 0\<close>.
\<close>

datatype jint = JInt int | JAbsent | JJunk

definition cursor_of :: "jint \<Rightarrow> int" where
  "cursor_of v = (case v of JInt n \<Rightarrow> n | JAbsent \<Rightarrow> 0 | JJunk \<Rightarrow> 0)"

text \<open>A job of \<open>_state["jobs"]\<close>.  A missing or empty string field is the empty string.\<close>

record job =
  job_id :: string
  poll_chanel :: string
  post_chanel :: string
  textdelete :: string
  caption :: string
  post_by :: string
  post_seasion :: string
  bot_token :: string
  last_ok_id :: jint
  last_error :: string
  paused_reason :: string
  created_ts :: string
  updated_ts :: string

text \<open>A poller of \<open>_state["pollers"]\<close>; \<open>session_index\<close> is \<open>None\<close> when the key is missing.\<close>

record poller =
  poll_session_name :: string
  session_index :: "int option"
  p_created_ts :: string
  p_last_error :: string
  last_failover_ts :: string

text \<open>\<open>SessionWrap\<close>: \<open>sw_client\<close> says whether \<open>sw.client\<close> is set.\<close>

record sess =
  sw_index :: nat
  sw_stem :: string
  sw_name :: string
  sw_client :: bool
  sw_online :: bool
  sw_last_check_ts :: nat
  sw_last_error :: string

record recent_item =
  ri_link :: string
  ri_poll :: string
  ri_post :: string
  ri_ts :: string

record dead_info =
  di_ts :: string
  di_reason :: string
  di_last_error :: string

datatype media =
    NoMedia
  | MediaPhoto
  | MediaDocument (doc_mime: string) (doc_file_name: string)
  | MediaOther

text \<open>
  A Telethon \<open>Message\<close>: \<open>msg_id = 0\<close> and \<open>grouped_id = 0\<close> stand for a missing value,
  \<open>entities\<close> for \<open>bool(msg.entities)\<close>, and \<open>html\<close> for what \<open>tl_html.unparse\<close> makes of the
  text and its entities (\<open>None\<close> when it raises or is not installed).
\<close>

record msg =
  msg_id :: int
  message :: string
  grouped_id :: int
  entities :: bool
  html :: "string option"
  msg_media :: media

text \<open>The calls that leave the process, in the order they are made.\<close>

datatype event =
    AlertPostDie string string string string string
  | AlertFailover string string string
  | NotifyNewPost string string string
  | SendFile string string string string
  | SendMessageEntities string string string
  | SendMessage string string string
  | BotSendPhoto string string string string
  | BotSendDocument string string string string
  | BotSendTextHtml string string string
  | BotSendTextPlain string string string
  | JoinChannel string string
  | IterMessages string int nat

text \<open>
  The process state: the session list, the \<open>_state\<close> dictionary (dictionaries as
  association lists in insertion order), the number of answers taken from the outside
  world so far, and the calls made to it.
\<close>

record world =
  sessions :: "sess list"
  pollers :: "(string \<times> poller) list"
  jobs :: "(string \<times> job) list"
  recent_by_session :: "(string \<times> recent_item list) list"
  recent_by_bot :: "(string \<times> recent_item list) list"
  dead_sessions :: "(string \<times> dead_info) list"
  clock :: nat
  trace :: "event list"

record cfg =
  BATCH_MAX :: nat
  INCLUDE_MEDIA :: bool
  MEDIA_MAX_BYTES :: nat

section \<open>The outside world\<close>

text \<open>
  Every call to Telegram, to the Bot API or to the system clock takes the next answer of
  an oracle \<open>env\<close>; the theorems hold for every oracle.  \<open>r_latest\<close> is what
  \<open>_get_latest_id\<close> returns: the id of the newest message, 0 after an error, \<open>None\<close> when
  the channel has no message.
\<close>

datatype auth_result = Authorized | NotAuthorized | AuthKeyError string | AuthFailed string

datatype entity_result = EntityExc string | Entity (ent_username: string) (ent_id: int) (ent_title: string)

datatype send_result = SendAdminRequired string | SendExc string | Sent int

datatype bot_result = BotExc string | BotOk nat string

datatype fetch_result =
    Fetched "msg list" | FetchFloodWait | FetchPrivate | FetchAuthKeyUnregistered | FetchExc

record reply =
  r_auth :: auth_result
  r_time :: nat
  r_now_str :: string
  r_data :: "nat list option"
  r_entity :: entity_result
  r_sent :: send_result
  r_bot :: bot_result
  r_fetch :: fetch_result
  r_latest :: "nat option"

type_synonym env = "nat \<Rightarrow> reply"

definition tick :: "world \<Rightarrow> world" where
  "tick w = w\<lparr>clock := Suc (clock w)\<rparr>"

definition emit :: "event \<Rightarrow> world \<Rightarrow> world" where
  "emit e w = w\<lparr>trace := trace w @ [e]\<rparr>"

section \<open>Sessions\<close>

definition session_display_name :: "sess \<Rightarrow> string" where
  "session_display_name sw =
     (if sw_stem sw \<noteq> [] then sw_stem sw else ''session_'' @ str_nat (sw_index sw + 1))"

definition sess_key :: "sess \<Rightarrow> string" where
  "sess_key sw = sw_name sw"

text \<open>
  \<open>start_session\<close> and \<open>_check_session_health\<close> on the session at position \<open>i\<close>: connect,
  ask \<open>is_user_authorized\<close>, and write the outcome into the session.
\<close>

definition auth_outcome :: "string \<Rightarrow> auth_result \<Rightarrow> sess \<Rightarrow> sess" where
  "auth_outcome what r sw =
     (case r of
        Authorized \<Rightarrow> sw\<lparr>sw_online := True, sw_last_error := []\<rparr>
      | NotAuthorized \<Rightarrow> sw\<lparr>sw_online := False, sw_last_error := ''not authorized''\<rparr>
      | AuthKeyError n \<Rightarrow> sw\<lparr>sw_online := False, sw_last_error := n\<rparr>
      | AuthFailed e \<Rightarrow> sw\<lparr>sw_online := False, sw_last_error := what @ '' failed: '' @ e\<rparr>)"

definition start_session :: "env \<Rightarrow> nat \<Rightarrow> world \<Rightarrow> world" where
  "start_session env i w =
     (let sw = sessions w ! i in
      if sw_client sw then w
      else
        let r = env (clock w);
            sw' = (auth_outcome ''start'' (r_auth r) (sw\<lparr>sw_client := True\<rparr>))
                    \<lparr>sw_last_check_ts := r_time r\<rparr>
        in tick (w\<lparr>sessions := (sessions w)[i := sw']\<rparr>))"

definition check_session_health :: "env \<Rightarrow> nat \<Rightarrow> world \<Rightarrow> world" where
  "check_session_health env i w =
     (let sw = sessions w ! i in
      if \<not> sw_client sw then start_session env i w
      else
        let r = env (clock w);
            sw' = auth_outcome ''health'' (r_auth r) (sw\<lparr>sw_last_check_ts := r_time r\<rparr>)
        in tick (w\<lparr>sessions := (sessions w)[i := sw']\<rparr>))"

fun find_index_from :: "('a \<Rightarrow> bool) \<Rightarrow> nat \<Rightarrow> 'a list \<Rightarrow> nat option" where
  "find_index_from P i [] = None"
| "find_index_from P i (x # xs) = (if P x then Some i else find_index_from P (Suc i) xs)"

definition name_matches :: "string \<Rightarrow> sess \<Rightarrow> bool" where
  "name_matches key sw =
     (key = lower (sw_stem sw) \<or> key = lower (session_display_name sw) \<or> key = lower (sw_name sw))"

text \<open>
  \<open>find_session_wrap_by_name\<close>: the position of the first session whose stem, display name
  or file name is the key, started when it has no client yet.
\<close>

definition find_session_wrap_by_name :: "env \<Rightarrow> string \<Rightarrow> world \<Rightarrow> nat option \<times> world" where
  "find_session_wrap_by_name env name w =
     (let key = lower (norm_session_name name) in
      if key = [] then (None, w)
      else case find_index_from (name_matches key) 0 (sessions w) of
             None \<Rightarrow> (None, w)
           | Some i \<Rightarrow> (Some i, start_session env i w))"

text \<open>
  \<open>ensure_join\<close>: waits, resolves the channel and asks Telegram to join it; every error is
  swallowed, and the join request is only made when the channel resolves.
\<close>

definition ensure_join :: "env \<Rightarrow> nat \<Rightarrow> string \<Rightarrow> world \<Rightarrow> world" where
  "ensure_join env i channel w =
     (if \<not> sw_client (sessions w ! i) then w
      else case r_entity (env (clock w)) of
             EntityExc e \<Rightarrow> tick w
           | Entity u c t \<Rightarrow> tick (emit (JoinChannel (sw_name (sessions w ! i)) channel) w))"

section \<open>Role rules\<close>

definition or_user :: "string \<Rightarrow> string" where
  "or_user s = (if s = [] then ''user'' else s)"

definition poll_sessions :: "world \<Rightarrow> string set" where
  "poll_sessions w =
     set (filter (\<lambda>sn. sn \<noteq> []) (map (\<lambda>(k, m). lower (strip (poll_session_name m))) (pollers w)))"

definition post_sessions :: "world \<Rightarrow> string set" where
  "post_sessions w =
     set (filter (\<lambda>ps. ps \<noteq> [])
            (map (\<lambda>(k, j). lower (strip (post_seasion j)))
               (filter (\<lambda>(k, j). lower (or_user (post_by j)) = ''user'') (jobs w))))"

definition online_sessions_snapshot :: "world \<Rightarrow> sess list" where
  "online_sessions_snapshot w = filter (\<lambda>sw. sw_client sw \<and> sw_online sw) (sessions w)"

text \<open>\<open>_poll_load_counts\<close>, read at one session index.\<close>

definition poll_load_counts :: "world \<Rightarrow> nat \<Rightarrow> nat" where
  "poll_load_counts w idx =
     length (filter (\<lambda>(k, m). session_index m = Some (int idx)) (pollers w))"

definition pick_step :: "string set \<Rightarrow> (nat \<Rightarrow> nat) \<Rightarrow> sess option \<times> nat \<Rightarrow> sess \<Rightarrow> sess option \<times> nat" where
  "pick_step excl counts acc sw =
     (if lower (session_display_name sw) \<in> excl then acc
      else let c = counts (sw_index sw) in
        if c < snd acc then (Some sw, c) else acc)"

definition pick_poll_session_least_loaded :: "string set \<Rightarrow> world \<Rightarrow> sess option" where
  "pick_poll_session_least_loaded exclude_session_names_lower w =
     fst (foldl (pick_step exclude_session_names_lower (poll_load_counts w))
            (None, 10 ^ 9) (online_sessions_snapshot w))"

section \<open>Failover of a poller\<close>

text \<open>
  The check at the head of \<open>_failover_poller_if_needed\<close>: the session the poller names is
  looked up and its health checked; the answer is whether it is there, online and has a
  client.
\<close>

definition bound_session_alive :: "env \<Rightarrow> poller \<Rightarrow> world \<Rightarrow> bool \<times> world" where
  "bound_session_alive env meta w =
     (let psn = strip (poll_session_name meta);
          (sw, w1) = (if psn \<noteq> [] then find_session_wrap_by_name env psn w else (None, w));
          w2 = (case sw of Some i \<Rightarrow> check_session_health env i w1 | None \<Rightarrow> w1)
      in ((case sw of Some i \<Rightarrow> sw_online (sessions w2 ! i) \<and> sw_client (sessions w2 ! i)
                    | None \<Rightarrow> False), w2))"

text \<open>The poll session is dead or missing: pick another one that is not in the post role.\<close>

definition rebind_poller :: "env \<Rightarrow> string \<Rightarrow> poller \<Rightarrow> world \<Rightarrow> world" where
  "rebind_poller env poll_name meta w2 =
     (let psn = strip (poll_session_name meta) in
      case pick_poll_session_least_loaded (post_sessions w2) w2 of
        None \<Rightarrow>
          w2\<lparr>pollers := AList.update poll_name
               (meta\<lparr>p_last_error :=
                  ''poller has no available poll session (old='' @ psn @ '')''\<rparr>)
               (pollers w2)\<rparr>
      | Some dst \<Rightarrow>
          let now = r_now_str (env (clock w2));
              meta' = meta\<lparr>poll_session_name := session_display_name dst,
                           session_index := Some (int (sw_index dst)),
                           p_last_error := [],
                           last_failover_ts := now\<rparr>
          in tick (emit (AlertFailover (norm_ch poll_name)
                           (if psn = [] then ''(none)'' else psn)
                           (session_display_name dst))
                     (w2\<lparr>pollers := AList.update poll_name meta' (pollers w2)\<rparr>)))"

definition failover_poller_if_needed :: "env \<Rightarrow> string \<Rightarrow> world \<Rightarrow> world" where
  "failover_poller_if_needed env poll_name w =
     (case map_of (pollers w) poll_name of
        None \<Rightarrow> w
      | Some meta \<Rightarrow>
          (case bound_session_alive env meta w of
             (True, w2) \<Rightarrow> w2
           | (False, w2) \<Rightarrow> rebind_poller env poll_name meta w2))"

section \<open>Post link and recent rings\<close>

definition build_post_link :: "entity_result \<Rightarrow> int \<Rightarrow> string" where
  "build_post_link post_entity mid =
     (case post_entity of
        EntityExc e \<Rightarrow> ''N/A''
      | Entity username cid title \<Rightarrow>
          if username \<noteq> [] then ''https://t.me/'' @ username @ ''/'' @ str_int mid
          else if cid \<noteq> 0 then ''https://t.me/c/'' @ str_int cid @ ''/'' @ str_int mid
          else ''N/A'')"

text \<open>\<open>d.get(key, [])\<close>: the ring stored under a key, empty when there is none.\<close>

definition ring_of :: "(string \<times> recent_item list) list \<Rightarrow> string \<Rightarrow> recent_item list" where
  "ring_of rings key = (case map_of rings key of None \<Rightarrow> [] | Some arr \<Rightarrow> arr)"

text \<open>\<open>arr = d.setdefault(key, []); arr.insert(0, item); del arr[10:]\<close>\<close>

definition ring_insert ::
  "string \<Rightarrow> recent_item \<Rightarrow> (string \<times> recent_item list) list \<Rightarrow> (string \<times> recent_item list) list" where
  "ring_insert key item rings = AList.update key (take 10 (item # ring_of rings key)) rings"

definition record_reup_session ::
  "env \<Rightarrow> sess \<Rightarrow> string \<Rightarrow> entity_result \<Rightarrow> string \<Rightarrow> int \<Rightarrow> world \<Rightarrow> world" where
  "record_reup_session env sw poll_name post_ent post_name_norm mid w =
     (let item = \<lparr>ri_link = build_post_link post_ent mid, ri_poll = norm_ch poll_name,
                  ri_post = post_name_norm, ri_ts = r_now_str (env (clock w))\<rparr>
      in tick (w\<lparr>recent_by_session := ring_insert (sess_key sw) item (recent_by_session w)\<rparr>))"

definition record_reup_bot :: "env \<Rightarrow> string \<Rightarrow> string \<Rightarrow> string \<Rightarrow> string \<Rightarrow> world \<Rightarrow> world" where
  "record_reup_bot env tok poll_name post_name_norm link w =
     (let item = \<lparr>ri_link = link, ri_poll = norm_ch poll_name,
                  ri_post = post_name_norm, ri_ts = r_now_str (env (clock w))\<rparr>
      in tick (w\<lparr>recent_by_bot := ring_insert (bot_key tok) item (recent_by_bot w)\<rparr>))"

section \<open>Media download\<close>

type_synonym media_blob = "string \<times> nat list \<times> string"

definition fetch_bytes :: "env \<Rightarrow> cfg \<Rightarrow> world \<Rightarrow> nat list option \<times> world" where
  "fetch_bytes env c w =
     (case r_data (env (clock w)) of
        None \<Rightarrow> (None, tick w)
      | Some data \<Rightarrow>
          if data = [] \<or> length data > MEDIA_MAX_BYTES c then (None, tick w)
          else (Some data, tick w))"

definition download_media_bytes :: "env \<Rightarrow> cfg \<Rightarrow> msg \<Rightarrow> world \<Rightarrow> media_blob option \<times> world" where
  "download_media_bytes env c m w =
     (case msg_media m of
        NoMedia \<Rightarrow> (None, w)
      | MediaPhoto \<Rightarrow>
          (case fetch_bytes env c w of
             (None, w') \<Rightarrow> (None, w')
           | (Some data, w') \<Rightarrow>
               (Some (''photo_'' @ str_int (msg_id m) @ ''.jpg'', data, ''image/jpeg''), w'))
      | MediaDocument mime0 fname \<Rightarrow>
          let mime = lower (if mime0 = [] then ''application/octet-stream'' else mime0);
              name = (if fname \<noteq> [] then fname else ''file_'' @ str_int (msg_id m))
          in (case fetch_bytes env c w of
                (None, w') \<Rightarrow> (None, w')
              | (Some data, w') \<Rightarrow> (Some (name, data, mime), w'))
      | MediaOther \<Rightarrow> (None, w))"

section \<open>Repost core\<close>

text \<open>One Bot API call: the request goes out, and the answer is an error or a link.\<close>

definition bot_call :: "env \<Rightarrow> event \<Rightarrow> string \<Rightarrow> world \<Rightarrow> (string + string) \<times> world" where
  "bot_call env request dest w =
     (let w' = tick (emit request w) in
      case r_bot (env (clock w)) of
        BotExc e \<Rightarrow> (Inl e, w')
      | BotOk mid uname \<Rightarrow>
          (Inr (if mid \<noteq> 0
                then ''https://t.me/'' @ (if uname \<noteq> [] then uname else norm_ch dest)
                       @ ''/'' @ str_nat mid
                else ''N/A''), w'))"

definition bot_chat_id_from_channel :: "string \<Rightarrow> string" where
  "bot_chat_id_from_channel username = CHR ''@'' # norm_ch username"

definition bot_send :: "env \<Rightarrow> string \<Rightarrow> string \<Rightarrow> media_blob option \<Rightarrow> bool \<Rightarrow> world
    \<Rightarrow> (string + string) \<times> world" where
  "bot_send env dest text blob as_html w =
     (case blob of
        Some (fname, data, mime) \<Rightarrow>
          if startswith mime ''image/''
          then bot_call env (BotSendPhoto (bot_chat_id_from_channel dest) text fname mime) dest w
          else bot_call env (BotSendDocument (bot_chat_id_from_channel dest) text fname mime) dest w
      | None \<Rightarrow>
          if as_html
          then bot_call env (BotSendTextHtml (bot_chat_id_from_channel dest) text ''HTML'') dest w
          else bot_call env (BotSendTextPlain (bot_chat_id_from_channel dest) text []) dest w)"

definition repost_bot ::
  "env \<Rightarrow> string \<Rightarrow> job \<Rightarrow> string \<Rightarrow> string option \<Rightarrow> media_blob option \<Rightarrow> world
    \<Rightarrow> bool \<times> job \<times> world" where
  "repost_bot env poll_name j final_text html_text_for_bot blob w =
     (let post_name = post_chanel j; tok = strip (bot_token j) in
      if tok = [] then (False, j\<lparr>last_error := ''BOT: missing bot_token''\<rparr>, w)
      else
        let (res, w1) =
              (if textdelete j \<noteq> [] \<or> caption j \<noteq> []
               then bot_send env post_name final_text blob False w
               else
                 let bot_html = (case html_text_for_bot of Some h \<Rightarrow> h | None \<Rightarrow> final_text)
                 in bot_send env post_name bot_html blob (html_text_for_bot \<noteq> None) w)
        in case res of
             Inl e \<Rightarrow> (False, j\<lparr>last_error := ''BOT send failed: '' @ e\<rparr>, w1)
           | Inr link \<Rightarrow>
               let w2 = record_reup_bot env tok poll_name (norm_ch post_name) link w1;
                   w3 = emit (NotifyNewPost ''BOT'' (CHR ''@'' # norm_ch post_name @ '' (BOT)'') link) w2
               in (True, j\<lparr>last_error := [], paused_reason := []\<rparr>, w3))"

text \<open>What follows \<open>send_file\<close> and \<open>send_message\<close> in user mode.\<close>

definition user_sent ::
  "env \<Rightarrow> string \<Rightarrow> job \<Rightarrow> sess \<Rightarrow> entity_result \<Rightarrow> string \<Rightarrow> send_result \<Rightarrow> world
    \<Rightarrow> bool \<times> job \<times> world" where
  "user_sent env poll_name j post_sw post_ent no_id r w =
     (case r of
        SendAdminRequired e \<Rightarrow> (False, j\<lparr>last_error := ''ChatAdminRequiredError: '' @ e\<rparr>, w)
      | SendExc e \<Rightarrow> (False, j\<lparr>last_error := ''send failed: '' @ e\<rparr>, w)
      | Sent sid \<Rightarrow>
          if sid \<noteq> 0
          then
            let post_name = post_chanel j;
                link = build_post_link post_ent sid;
                w1 = record_reup_session env post_sw poll_name post_ent (norm_ch post_name) sid w;
                display = (case post_ent of
                             Entity u c title \<Rightarrow>
                               if title \<noteq> [] then title else CHR ''@'' # norm_ch post_name
                           | EntityExc e \<Rightarrow> CHR ''@'' # norm_ch post_name);
                w2 = emit (NotifyNewPost (session_display_name post_sw) display link) w1
            in (True, j\<lparr>last_error := [], paused_reason := []\<rparr>, w2)
          else (False, j\<lparr>last_error := no_id\<rparr>, w))"

definition user_send ::
  "env \<Rightarrow> string \<Rightarrow> job \<Rightarrow> msg \<Rightarrow> nat \<Rightarrow> entity_result \<Rightarrow> string \<Rightarrow> bool \<Rightarrow> media_blob option
    \<Rightarrow> world \<Rightarrow> bool \<times> job \<times> world" where
  "user_send env poll_name j m i post_ent final_text use_entities blob w =
     (let post_sw = sessions w ! i; post_name = post_chanel j; r = r_sent (env (clock w)) in
      case blob of
        Some (fname, data, mime) \<Rightarrow>
          user_sent env poll_name j post_sw post_ent ''send_file returned no id'' r
            (tick (emit (SendFile (sw_name post_sw) post_name fname final_text) w))
      | None \<Rightarrow>
          if use_entities \<and> caption j = [] \<and> textdelete j = []
          then user_sent env poll_name j post_sw post_ent
                 ''send_message(entities) returned no id'' r
                 (tick (emit (SendMessageEntities (sw_name post_sw) post_name (message m)) w))
          else user_sent env poll_name j post_sw post_ent ''send_message returned no id'' r
                 (tick (emit (SendMessage (sw_name post_sw) post_name final_text) w)))"

text \<open>User mode, the post session is found but not online: no failover, the job stays pending.\<close>

definition post_session_die :: "env \<Rightarrow> string \<Rightarrow> job \<Rightarrow> nat \<Rightarrow> world \<Rightarrow> bool \<times> job \<times> world" where
  "post_session_die env poll_name j i w2 =
     (let post_sw = sessions w2 ! i;
          j' = j\<lparr>last_error := ''POST session DIE: '' @ session_display_name post_sw
                      @ '' ('' @ sw_last_error post_sw @ '')'',
                  paused_reason := ''post_session_die''\<rparr>;
          now = r_time (env (clock w2));
          w3 = tick w2
      in if now mod 30 = 0
         then (False, j',
               emit (AlertPostDie (job_id j) (norm_ch poll_name) (norm_ch (post_chanel j))
                       (session_display_name post_sw) (sw_last_error post_sw)) w3)
         else (False, j', w3))"

text \<open>User mode, the post session is online: join the destination, resolve it, send.\<close>

definition post_session_live ::
  "env \<Rightarrow> string \<Rightarrow> job \<Rightarrow> msg \<Rightarrow> nat \<Rightarrow> string \<Rightarrow> bool \<Rightarrow> media_blob option \<Rightarrow> world
    \<Rightarrow> bool \<times> job \<times> world" where
  "post_session_live env poll_name j m i final_text use_entities blob w2 =
     (let w3 = ensure_join env i (post_chanel j) w2;
          post_ent = r_entity (env (clock w3));
          w4 = tick w3
      in case post_ent of
           EntityExc e \<Rightarrow> (False, j\<lparr>last_error := ''get_entity(post) failed: '' @ e\<rparr>, w4)
         | Entity u c t \<Rightarrow>
             user_send env poll_name j m i post_ent final_text use_entities blob w4)"

definition repost_user ::
  "env \<Rightarrow> string \<Rightarrow> job \<Rightarrow> msg \<Rightarrow> string \<Rightarrow> bool \<Rightarrow> media_blob option \<Rightarrow> world
    \<Rightarrow> bool \<times> job \<times> world" where
  "repost_user env poll_name j m final_text use_entities blob w =
     (if post_seasion j = [] then (False, j\<lparr>last_error := ''USER post requires post_seasion''\<rparr>, w)
      else
        case find_session_wrap_by_name env (post_seasion j) w of
          (None, w1) \<Rightarrow>
            (False, j\<lparr>last_error := ''POST session not found: '' @ post_seasion j,
                       paused_reason := ''post_session_missing''\<rparr>, w1)
        | (Some i, w1) \<Rightarrow>
            if \<not> sw_client (sessions w1 ! i)
            then (False, j\<lparr>last_error := ''POST session not found: '' @ post_seasion j,
                            paused_reason := ''post_session_missing''\<rparr>, w1)
            else
              let w2 = check_session_health env i w1 in
              if \<not> sw_online (sessions w2 ! i)
              then post_session_die env poll_name j i w2
              else post_session_live env poll_name j m i final_text use_entities blob w2)"

text \<open>The media download of \<open>_repost_single\<close>, made through the poll session.\<close>

definition media_step :: "env \<Rightarrow> cfg \<Rightarrow> nat \<Rightarrow> msg \<Rightarrow> world \<Rightarrow> media_blob option \<times> world" where
  "media_step env c poll_sw m w =
     (if INCLUDE_MEDIA c \<and> sw_client (sessions w ! poll_sw)
      then download_media_bytes env c m w else (None, w))"

definition repost_single ::
  "env \<Rightarrow> cfg \<Rightarrow> nat \<Rightarrow> string \<Rightarrow> job \<Rightarrow> msg \<Rightarrow> world \<Rightarrow> bool \<times> job \<times> world" where
  "repost_single env c poll_sw poll_name j m w =
     (if post_chanel j = [] then (False, j, w)
      else
        let post_by' = lower (or_user (post_by j));
            original_text = message m;
            clean_text = apply_textdelete original_text (textdelete j);
            final_text = append_caption clean_text (caption j);
            use_entities = (textdelete j = [] \<and> entities m);
            html_text_for_bot =
              (if use_entities then (case html m of Some [] \<Rightarrow> None | h \<Rightarrow> h) else None);
            (blob, w1) = media_step env c poll_sw m w
        in if post_by' = ''bot''
           then repost_bot env poll_name j final_text html_text_for_bot blob w1
           else repost_user env poll_name j m final_text use_entities blob w1)"

text \<open>\<open>_repost_album\<close>: \<open>max(msgs, key=len of text)\<close> keeps the first longest member.\<close>

definition album_primary :: "msg \<Rightarrow> msg list \<Rightarrow> msg" where
  "album_primary m ms =
     foldl (\<lambda>best x. if length (message best) < length (message x) then x else best) m ms"

definition repost_album ::
  "env \<Rightarrow> cfg \<Rightarrow> nat \<Rightarrow> string \<Rightarrow> job \<Rightarrow> msg list \<Rightarrow> world \<Rightarrow> bool \<times> job \<times> world" where
  "repost_album env c poll_sw poll_name j msgs w =
     (case msgs of
        [] \<Rightarrow> (False, j, w)
      | m # ms \<Rightarrow> repost_single env c poll_sw poll_name j (album_primary m ms) w)"


section \<open>Poll loop\<close>

text \<open>
  \<open>_jobs_for_poll\<close> returns the job dictionaries themselves, which the loop then changes
  in place; here they are the positions of those jobs in \<open>jobs w\<close>.
\<close>

definition jobs_for_poll :: "world \<Rightarrow> string \<Rightarrow> nat list" where
  "jobs_for_poll w poll_name =
     filter (\<lambda>i. norm_ch (poll_chanel (snd (jobs w ! i))) = norm_ch poll_name)
       [0..<length (jobs w)]"

text \<open>The body of the loop over the jobs in \<open>_process_message_for_jobs\<close>.\<close>

definition process_job ::
  "env \<Rightarrow> cfg \<Rightarrow> nat \<Rightarrow> string \<Rightarrow> msg \<Rightarrow> msg list \<Rightarrow> nat \<Rightarrow> world \<Rightarrow> world" where
  "process_job env c poll_sw poll_name m album_messages i w =
     (let (k, j) = jobs w ! i; mid = msg_id m; last_ok = cursor_of (last_ok_id j) in
      if mid \<le> last_ok then w
      else
        let (ok, j', w') =
              (if album_messages \<noteq> []
               then repost_album env c poll_sw poll_name j album_messages w
               else repost_single env c poll_sw poll_name j m w)
        in if ok
           then w'\<lparr>jobs := (jobs w')[i := (k, j'\<lparr>last_ok_id := JInt mid, last_error := [],
                                                    paused_reason := []\<rparr>)]\<rparr>
           else w'\<lparr>jobs := (jobs w')[i := (k, j')]\<rparr>)"

definition process_message_for_jobs ::
  "env \<Rightarrow> cfg \<Rightarrow> nat \<Rightarrow> string \<Rightarrow> msg \<Rightarrow> msg list \<Rightarrow> world \<Rightarrow> world" where
  "process_message_for_jobs env c poll_sw poll_name m album_messages w =
     (let js = jobs_for_poll w poll_name in
      if js = [] then w
      else if msg_id m \<le> 0 then w
      else fold (process_job env c poll_sw poll_name m album_messages) js w)"

text \<open>The grouping of a batch: albums by group id, the rest as singles.\<close>

definition album_gids :: "msg list \<Rightarrow> int list" where
  "album_gids msgs = sort (remdups (map grouped_id (filter (\<lambda>m. grouped_id m \<noteq> 0) msgs)))"

definition album_of :: "msg list \<Rightarrow> int \<Rightarrow> msg list" where
  "album_of msgs gid = sort_key msg_id (filter (\<lambda>m. grouped_id m = gid) msgs)"

definition singles_of :: "msg list \<Rightarrow> msg list" where
  "singles_of msgs = sort_key msg_id (filter (\<lambda>m. grouped_id m = 0) msgs)"

definition process_album ::
  "env \<Rightarrow> cfg \<Rightarrow> nat \<Rightarrow> string \<Rightarrow> msg list \<Rightarrow> int \<Rightarrow> world \<Rightarrow> world" where
  "process_album env c poll_sw poll_name msgs gid w =
     (let album = album_of msgs gid
      in process_message_for_jobs env c poll_sw poll_name (last album) album w)"

definition process_batch ::
  "env \<Rightarrow> cfg \<Rightarrow> nat \<Rightarrow> string \<Rightarrow> msg list \<Rightarrow> world \<Rightarrow> world" where
  "process_batch env c poll_sw poll_name msgs w =
     (let w1 = fold (process_album env c poll_sw poll_name msgs) (album_gids msgs) w
      in fold (\<lambda>m. process_message_for_jobs env c poll_sw poll_name m []) (singles_of msgs) w1)"

definition min_cursor_of :: "world \<Rightarrow> nat list \<Rightarrow> int" where
  "min_cursor_of w js =
     (case js of
        [] \<Rightarrow> 0
      | i # rest \<Rightarrow>
          foldl (\<lambda>acc i. min acc (cursor_of (last_ok_id (snd (jobs w ! i)))))
            (cursor_of (last_ok_id (snd (jobs w ! i)))) rest)"

definition collect_msgs :: "int \<Rightarrow> msg list \<Rightarrow> msg list" where
  "collect_msgs min_cursor ms = filter (\<lambda>m. msg_id m \<noteq> 0 \<and> \<not> msg_id m \<le> min_cursor) ms"

text \<open>The fetch of \<open>_poll_one_channel\<close> and what each of its outcomes leads to.\<close>

definition fetch_and_process ::
  "env \<Rightarrow> cfg \<Rightarrow> nat \<Rightarrow> string \<Rightarrow> int \<Rightarrow> world \<Rightarrow> world" where
  "fetch_and_process env c i poll_name min_cursor w5 =
     (let res = r_fetch (env (clock w5));
          w6 = tick (emit (IterMessages poll_name min_cursor (BATCH_MAX c)) w5)
      in case res of
           FetchFloodWait \<Rightarrow> w6
         | FetchPrivate \<Rightarrow> w6
         | FetchAuthKeyUnregistered \<Rightarrow>
             w6\<lparr>sessions := (sessions w6)
                  [i := (sessions w6 ! i)
                     \<lparr>sw_online := False, sw_last_error := ''AuthKeyUnregisteredError''\<rparr>]\<rparr>
         | FetchExc \<Rightarrow> w6
         | Fetched ms \<Rightarrow>
             let msgs = collect_msgs min_cursor ms in
             if msgs = [] then w6
             else process_batch env c i poll_name msgs w6)"

definition poll_with_session :: "env \<Rightarrow> cfg \<Rightarrow> nat \<Rightarrow> string \<Rightarrow> world \<Rightarrow> world" where
  "poll_with_session env c i poll_name w2 =
     (if \<not> sw_client (sessions w2 ! i) then w2
      else
        let w3 = check_session_health env i w2 in
        if \<not> sw_online (sessions w3 ! i) then w3
        else
          let js = jobs_for_poll w3 poll_name in
          if js = [] then w3
          else
            let w4 = ensure_join env i poll_name w3;
                min_cursor = min_cursor_of w4 js;
                ent = r_entity (env (clock w4));
                w5 = tick w4
            in (case ent of
                  EntityExc e \<Rightarrow> w5
                | Entity u cid t \<Rightarrow> fetch_and_process env c i poll_name min_cursor w5))"

definition poll_one_channel :: "env \<Rightarrow> cfg \<Rightarrow> string \<Rightarrow> world \<Rightarrow> world" where
  "poll_one_channel env c poll_name0 w =
     (let poll_name = norm_ch poll_name0 in
      if poll_name = [] then w
      else
        let w1 = failover_poller_if_needed env poll_name w;
            psn = (case map_of (pollers w1) poll_name of
                     None \<Rightarrow> [] | Some meta \<Rightarrow> strip (poll_session_name meta))
        in if psn = [] then w1
           else (case find_session_wrap_by_name env psn w1 of
                   (None, w2) \<Rightarrow> w2
                 | (Some i, w2) \<Rightarrow> poll_with_session env c i poll_name w2))"


section \<open>The /add endpoint\<close>

text \<open>\<open>AddPayload\<close>; an optional field that is \<open>None\<close> is the empty string.\<close>

record add_payload =
  a_poll_chanel :: string
  a_post_chanel :: string
  a_textdelete :: string
  a_caption :: string
  a_delete :: string
  a_seasion :: string
  a_poll_seasion :: string
  a_post_by :: string
  a_post_seasion :: string
  a_bot_token :: string

record add_ok =
  ok_job_id :: string
  ok_poll_chanel :: string
  ok_post_chanel :: string
  ok_poll_session_name :: string
  ok_poll_session_index :: nat
  ok_post_by :: string
  ok_post_seasion :: string
  ok_bot_token :: string
  ok_baseline_last_id :: int

datatype response =
    HTTPError nat string
  | Deleted nat bool string
  | Added add_ok

text \<open>The \<open>delete: "all"\<close> branch.\<close>

definition add_delete_all :: "string \<Rightarrow> world \<Rightarrow> response \<times> world" where
  "add_delete_all poll_name w =
     (let to_del = filter (\<lambda>(jid, j). norm_ch (poll_chanel j) = poll_name) (jobs w);
          existed_poller = (map_of (pollers w) poll_name \<noteq> None)
      in (Deleted (length to_del) existed_poller poll_name,
          w\<lparr>jobs := filter (\<lambda>(jid, j). norm_ch (poll_chanel j) \<noteq> poll_name) (jobs w),
            pollers := AList.delete poll_name (pollers w)\<rparr>))"

text \<open>The choice of the poll session: \<open>poll_req\<close> given.\<close>

definition choose_requested :: "env \<Rightarrow> string set \<Rightarrow> string \<Rightarrow> world \<Rightarrow> (response + string \<times> nat) \<times> world" where
  "choose_requested env post_sess poll_req w =
     (if lower poll_req \<in> post_sess
      then (Inl (HTTPError 409 (''Session '' @ poll_req
                   @ '' is already used as POST session. Not allowed to poll.'')), w)
      else
        case find_session_wrap_by_name env poll_req w of
          (None, w1) \<Rightarrow> (Inl (HTTPError 404 (''Poll session not found: '' @ poll_req)), w1)
        | (Some i, w1) \<Rightarrow>
            let w2 = check_session_health env i w1; sw = sessions w2 ! i in
            if \<not> sw_online sw
            then (Inl (HTTPError 503 (''Poll session DIE: '' @ poll_req
                        @ '' ('' @ sw_last_error sw @ '')'')), w2)
            else (Inr (session_display_name sw, sw_index sw), w2))"

text \<open>The poller exists and names a session: keep it, after a failover if it is not online.\<close>

definition choose_existing :: "env \<Rightarrow> string \<Rightarrow> string \<Rightarrow> world \<Rightarrow> (response + string \<times> nat) \<times> world" where
  "choose_existing env poll_name psn0 w =
     (let (sw, w1) = find_session_wrap_by_name env psn0 w;
          w2 = (case sw of Some i \<Rightarrow> check_session_health env i w1 | None \<Rightarrow> w1);
          dead = (case sw of Some i \<Rightarrow> \<not> sw_online (sessions w2 ! i) | None \<Rightarrow> True);
          w3 = (if dead then failover_poller_if_needed env poll_name w2 else w2);
          psn = (if dead
                 then (case map_of (pollers w3) poll_name of
                         None \<Rightarrow> [] | Some meta \<Rightarrow> poll_session_name meta)
                 else psn0)
      in case find_session_wrap_by_name env psn w3 of
           (None, w4) \<Rightarrow> (Inl (HTTPError 503 ''No online poll session available''), w4)
         | (Some i, w4) \<Rightarrow>
             if \<not> sw_online (sessions w4 ! i)
             then (Inl (HTTPError 503 ''No online poll session available''), w4)
             else (Inr (psn, sw_index (sessions w4 ! i)), w4))"

definition choose_poll_session ::
  "env \<Rightarrow> string set \<Rightarrow> string \<Rightarrow> string \<Rightarrow> world \<Rightarrow> (response + string \<times> nat) \<times> world" where
  "choose_poll_session env post_sess poll_name poll_req w =
     (if poll_req \<noteq> [] then choose_requested env post_sess poll_req w
      else
        case map_of (pollers w) poll_name of
          Some meta \<Rightarrow>
            if poll_session_name meta \<noteq> []
            then choose_existing env poll_name (poll_session_name meta) w
            else (case pick_poll_session_least_loaded post_sess w of
                    None \<Rightarrow> (Inl (HTTPError 503 ''No online poll session available''), w)
                  | Some dst \<Rightarrow> (Inr (session_display_name dst, sw_index dst), w))
        | None \<Rightarrow>
            (case pick_poll_session_least_loaded post_sess w of
               None \<Rightarrow> (Inl (HTTPError 503 ''No online poll session available''), w)
             | Some dst \<Rightarrow> (Inr (session_display_name dst, sw_index dst), w)))"

text \<open>Post role enforcement.\<close>

definition check_post_role ::
  "env \<Rightarrow> string set \<Rightarrow> string \<Rightarrow> string \<Rightarrow> string \<Rightarrow> world \<Rightarrow> response option \<times> world" where
  "check_post_role env poll_sess post_by' post_seasion' bot_token' w =
     (if post_by' = ''user''
      then
        if post_seasion' = [] then (Some (HTTPError 400 ''post_by=user requires post_seasion''), w)
        else if lower post_seasion' \<in> poll_sess
        then (Some (HTTPError 409 (''Session '' @ post_seasion'
                      @ '' is already used as POLL session. Not allowed to post.'')), w)
        else
          (case find_session_wrap_by_name env post_seasion' w of
             (None, w1) \<Rightarrow> (Some (HTTPError 404 (''Post session not found: '' @ post_seasion')), w1)
           | (Some i, w1) \<Rightarrow> (None, check_session_health env i w1))
      else
        if bot_token' = [] then (Some (HTTPError 400 ''post_by=bot requires bot_token''), w)
        else (None, w))"

text \<open>One poller per poll channel: created, or its session set again.\<close>

definition upsert_poller :: "env \<Rightarrow> string \<Rightarrow> string \<Rightarrow> nat \<Rightarrow> world \<Rightarrow> world" where
  "upsert_poller env poll_name psn idx w =
     (case map_of (pollers w) poll_name of
        None \<Rightarrow>
          tick (w\<lparr>pollers := AList.update poll_name
                    \<lparr>poll_session_name = psn, session_index = Some (int idx),
                     p_created_ts = r_now_str (env (clock w)), p_last_error = [],
                     last_failover_ts = []\<rparr> (pollers w)\<rparr>)
      | Some meta \<Rightarrow>
          w\<lparr>pollers := AList.update poll_name
               (meta\<lparr>poll_session_name := psn, session_index := Some (int idx)\<rparr>) (pollers w)\<rparr>)"

text \<open>
  The job is written under its id.  \<open>int(old.get("last_ok_id", baseline_last))\<close> raises for
  a value \<open>int()\<close> refuses, and \<open>int(baseline_last)\<close> raises when the channel has no message;
  the request then ends with status 500.
\<close>

definition job_cursor :: "job option \<Rightarrow> nat option \<Rightarrow> int option" where
  "job_cursor old baseline_last =
     (case old of
        None \<Rightarrow> map_option int baseline_last
      | Some j \<Rightarrow> (case last_ok_id j of
                     JInt n \<Rightarrow> Some n
                   | JAbsent \<Rightarrow> map_option int baseline_last
                   | JJunk \<Rightarrow> None))"

text \<open>The dictionary \<open>add\<close> stores for the job: \<open>old\<close> is the job stored under the id so far.\<close>

definition make_job ::
  "string \<Rightarrow> string \<Rightarrow> string \<Rightarrow> string \<Rightarrow> string \<Rightarrow> string \<Rightarrow> string \<Rightarrow> string
    \<Rightarrow> int \<Rightarrow> job option \<Rightarrow> string \<Rightarrow> job" where
  "make_job jid poll_name post_name textdelete' caption' post_by' post_seasion' bot_token'
       cur old now =
     \<lparr>job_id = jid, poll_chanel = poll_name, post_chanel = post_name,
      textdelete = textdelete', caption = caption', post_by = post_by',
      post_seasion = post_seasion', bot_token = bot_token',
      last_ok_id = JInt cur,
      last_error = (case old of Some j \<Rightarrow> last_error j | None \<Rightarrow> []),
      paused_reason = (case old of Some j \<Rightarrow> paused_reason j | None \<Rightarrow> []),
      created_ts = (case old of
                      Some j \<Rightarrow> if created_ts j \<noteq> [] then created_ts j else now
                    | None \<Rightarrow> now),
      updated_ts = now\<rparr>"

definition upsert_job ::
  "env \<Rightarrow> string \<Rightarrow> string \<Rightarrow> string \<Rightarrow> string \<Rightarrow> string \<Rightarrow> string \<Rightarrow> string
    \<Rightarrow> string \<Rightarrow> nat \<Rightarrow> nat option \<Rightarrow> world \<Rightarrow> response \<times> world" where
  "upsert_job env poll_name post_name textdelete' caption' post_by' post_seasion' bot_token'
       psn idx baseline_last w =
     (let jid = job_id_of poll_name post_name post_by' post_seasion' bot_token';
          old = map_of (jobs w) jid;
          now = r_now_str (env (clock w))
      in case job_cursor old baseline_last of
           None \<Rightarrow> (HTTPError 500 ''Internal Server Error'', w)
         | Some cur \<Rightarrow>
             (Added \<lparr>ok_job_id = jid, ok_poll_chanel = poll_name, ok_post_chanel = post_name,
                     ok_poll_session_name = psn, ok_poll_session_index = idx + 1,
                     ok_post_by = post_by', ok_post_seasion = post_seasion',
                     ok_bot_token = (if bot_token' \<noteq> []
                                     then ''****'' @ drop (length bot_token' - 6) bot_token'
                                     else []),
                     ok_baseline_last_id = (case baseline_last of Some b \<Rightarrow> int b | None \<Rightarrow> 0)\<rparr>,
              tick (w\<lparr>jobs := AList.update jid
                        (make_job jid poll_name post_name textdelete' caption' post_by'
                           post_seasion' bot_token' cur old now) (jobs w)\<rparr>)))"

text \<open>The baseline of a new cursor: the poll session must be ready, joins and reads the tip.\<close>

definition add_baseline ::
  "env \<Rightarrow> string \<Rightarrow> string \<Rightarrow> string \<Rightarrow> string \<Rightarrow> string \<Rightarrow> string \<Rightarrow> string
    \<Rightarrow> string \<Rightarrow> nat \<Rightarrow> world \<Rightarrow> response \<times> world" where
  "add_baseline env poll_name post_name textdelete' caption' post_by' post_seasion' bot_token'
       psn idx w =
     (case find_session_wrap_by_name env psn w of
        (None, w1) \<Rightarrow> (HTTPError 503 ''Poll session not ready'', w1)
      | (Some i, w1) \<Rightarrow>
          if \<not> sw_client (sessions w1 ! i) then (HTTPError 503 ''Poll session not ready'', w1)
          else
            let w2 = check_session_health env i w1 in
            if \<not> sw_online (sessions w2 ! i)
            then (HTTPError 503 (''Poll session DIE: '' @ psn), w2)
            else
              let w3 = ensure_join env i poll_name w2;
                  baseline_last = r_latest (env (clock w3));
                  w4 = tick w3
              in upsert_job env poll_name post_name textdelete' caption' post_by' post_seasion'
                   bot_token' psn idx baseline_last w4)"

text \<open>The post mode, bot token and post session of a request, as \<open>add\<close> normalizes them.\<close>

definition add_post_by :: "add_payload \<Rightarrow> string" where
  "add_post_by payload =
     (let post_by0 = lower (or_user (a_post_by payload))
      in if post_by0 = ''user'' \<or> post_by0 = ''bot'' then post_by0 else ''user'')"

definition add_bot_token :: "add_payload \<Rightarrow> string" where
  "add_bot_token payload =
     (if add_post_by payload = ''bot'' then strip (a_bot_token payload) else [])"

definition add_post_seasion :: "add_payload \<Rightarrow> string" where
  "add_post_seasion payload =
     (if add_post_by payload = ''user'' then norm_session_name (a_post_seasion payload) else [])"

definition add_poll_req :: "add_payload \<Rightarrow> string" where
  "add_poll_req payload =
     norm_session_name
       (if a_poll_seasion payload \<noteq> [] then a_poll_seasion payload else a_seasion payload)"

definition add :: "env \<Rightarrow> add_payload \<Rightarrow> world \<Rightarrow> response \<times> world" where
  "add env payload w =
     (let poll_name = norm_ch (a_poll_chanel payload) in
      if poll_name = [] then (HTTPError 400 ''poll_chanel is required'', w)
      else if a_delete payload \<noteq> [] \<and> lower (a_delete payload) = ''all''
      then add_delete_all poll_name w
      else
        let post_name = norm_ch (a_post_chanel payload) in
        if post_name = [] then (HTTPError 400 ''post_chanel is required when not deleting'', w)
        else
          let textdelete' = strip (a_textdelete payload);
              caption' = strip (a_caption payload);
              post_by' = add_post_by payload;
              bot_token' = add_bot_token payload;
              post_seasion' = add_post_seasion payload;
              poll_sess = poll_sessions w;
              post_sess = post_sessions w;
              poll_req = add_poll_req payload
          in case choose_poll_session env post_sess poll_name poll_req w of
               (Inl err, w1) \<Rightarrow> (err, w1)
             | (Inr (psn, idx), w1) \<Rightarrow>
                 (case check_post_role env poll_sess post_by' post_seasion' bot_token' w1 of
                    (Some err, w2) \<Rightarrow> (err, w2)
                  | (None, w2) \<Rightarrow>
                      add_baseline env poll_name post_name textdelete' caption' post_by'
                        post_seasion' bot_token' psn idx
                        (upsert_poller env poll_name psn idx w2)))"

text \<open>The tuple \<open>_job_id\<close> forms from the values \<open>add\<close> passes to it.\<close>

definition add_job_tuple :: "add_payload \<Rightarrow> string \<times> string \<times> string \<times> string \<times> string" where
  "add_job_tuple payload =
     job_tuple (norm_ch (a_poll_chanel payload)) (norm_ch (a_post_chanel payload))
       (add_post_by payload) (add_post_seasion payload) (add_bot_token payload)"

section \<open>The /status endpoint\<close>

record session_out =
  so_seasion :: string
  so_display :: string
  so_role :: string
  so_trang_thai :: string
  so_last_check_ts :: nat
  so_last_error :: string
  so_recent_10 :: "recent_item list"

record poller_out =
  po_poll_chanel :: string
  po_poll_session_name :: string
  po_session_index :: int
  po_last_error :: string
  po_created_ts :: string

record job_out =
  jo_job_id :: string
  jo_poll_chanel :: string
  jo_post_chanel :: string
  jo_post_by :: string
  jo_post_seasion :: string
  jo_bot_key :: string
  jo_last_ok_id :: int
  jo_paused_reason :: string
  jo_last_error :: string
  jo_textdelete :: string
  jo_caption :: string

record status_out =
  st_all_sessions :: "session_out list"
  st_pollers :: "poller_out list"
  st_jobs :: "job_out list"
  st_dead_sessions :: "(string \<times> dead_info) list"
  st_bots :: "(string \<times> recent_item list) list"

definition status_session :: "world \<Rightarrow> sess \<Rightarrow> session_out" where
  "status_session w sw =
     (let name_lower = lower (session_display_name sw) in
      \<lparr>so_seasion = sw_name sw,
       so_display = session_display_name sw,
       so_role = (if name_lower \<in> poll_sessions w then ''poll''
                  else if name_lower \<in> post_sessions w then ''post'' else ''free''),
       so_trang_thai = (if sw_online sw \<and> sw_client sw then ''Live'' else ''Die''),
       so_last_check_ts = sw_last_check_ts sw,
       so_last_error = sw_last_error sw,
       so_recent_10 = take 10 (ring_of (recent_by_session w) (sw_name sw))\<rparr>)"

definition status_poller :: "string \<times> poller \<Rightarrow> poller_out" where
  "status_poller e =
     (case e of (poll_ch, meta) \<Rightarrow>
        \<lparr>po_poll_chanel = CHR ''@'' # norm_ch poll_ch,
         po_poll_session_name = poll_session_name meta,
         po_session_index = (case session_index meta of None \<Rightarrow> - 1 | Some i \<Rightarrow> i),
         po_last_error = p_last_error meta,
         po_created_ts = p_created_ts meta\<rparr>)"

definition status_job :: "string \<times> job \<Rightarrow> job_out" where
  "status_job e =
     (case e of (jid, j) \<Rightarrow>
        \<lparr>jo_job_id = jid,
         jo_poll_chanel = CHR ''@'' # norm_ch (poll_chanel j),
         jo_post_chanel = CHR ''@'' # norm_ch (post_chanel j),
         jo_post_by = post_by j,
         jo_post_seasion = post_seasion j,
         jo_bot_key = (if bot_token j \<noteq> [] then bot_key (bot_token j) else []),
         jo_last_ok_id = cursor_of (last_ok_id j),
         jo_paused_reason = paused_reason j,
         jo_last_error = last_error j,
         jo_textdelete = textdelete j,
         jo_caption = caption j\<rparr>)"

text \<open>
  \<open>int(job.get("last_ok_id") or 0)\<close> stands outside any \<open>try\<close> here: a value \<open>int()\<close> refuses
  ends the request with status 500.
\<close>

definition status :: "world \<Rightarrow> response + status_out" where
  "status w =
     (if JJunk \<in> set (map (\<lambda>e. last_ok_id (snd e)) (jobs w))
      then Inl (HTTPError 500 ''Internal Server Error'')
      else Inr \<lparr>st_all_sessions = map (status_session w) (sessions w),
                st_pollers = map status_poller (pollers w),
                st_jobs = map status_job (jobs w),
                st_dead_sessions = dead_sessions w,
                st_bots = map (\<lambda>(k, items). (k, take 10 items)) (recent_by_bot w)\<rparr>)"


section \<open>Sends among the calls\<close>

text \<open>The calls that publish something in a destination.\<close>

fun is_send :: "event \<Rightarrow> bool" where
  "is_send (SendFile s d f t) = True"
| "is_send (SendMessageEntities s d t) = True"
| "is_send (SendMessage s d t) = True"
| "is_send (BotSendPhoto d t f m) = True"
| "is_send (BotSendDocument d t f m) = True"
| "is_send (BotSendTextHtml d t h) = True"
| "is_send (BotSendTextPlain d t h) = True"
| "is_send e = False"

definition sends :: "world \<Rightarrow> event list" where
  "sends w = filter is_send (trace w)"

section \<open>Cursors over time\<close>

text \<open>The cursor of the job at position \<open>k\<close>, as the poll loop reads it.\<close>

definition cursor_at :: "world \<Rightarrow> nat \<Rightarrow> int" where
  "cursor_at w k = cursor_of (last_ok_id (snd (jobs w ! k)))"


section \<open>A small installation, for the instances below\<close>

text \<open>
  Two sessions, \<open>poll_1\<close> polling the channel \<open>src\<close> and \<open>poster_a\<close> posting to \<open>dst\<close>, and
  one job between them.  In \<open>env_ok\<close> every call succeeds; in \<open>env_die\<close> no session is
  authorized any more.  The wall clock reads second 60 throughout.
\<close>

definition reply_ok :: reply where
  "reply_ok =
     \<lparr>r_auth = Authorized, r_time = 60, r_now_str = ''now'', r_data = None,
      r_entity = Entity ''dst'' 1 ''Dst'', r_sent = Sent 7, r_bot = BotOk 7 ''dst'',
      r_fetch = FetchExc, r_latest = Some 1000\<rparr>"

definition env_ok :: env where
  "env_ok n = reply_ok"

definition env_die :: env where
  "env_die n = reply_ok\<lparr>r_auth := NotAuthorized\<rparr>"

definition cfg0 :: cfg where
  "cfg0 = \<lparr>BATCH_MAX = 50, INCLUDE_MEDIA = True, MEDIA_MAX_BYTES = 52428800\<rparr>"

definition sess_poll :: sess where
  "sess_poll =
     \<lparr>sw_index = 0, sw_stem = ''poll_1'', sw_name = ''poll_1.session'', sw_client = True,
      sw_online = True, sw_last_check_ts = 0, sw_last_error = []\<rparr>"

definition sess_post :: sess where
  "sess_post =
     \<lparr>sw_index = 1, sw_stem = ''poster_a'', sw_name = ''poster_a.session'', sw_client = True,
      sw_online = True, sw_last_check_ts = 0, sw_last_error = []\<rparr>"

definition job_a :: job where
  "job_a =
     \<lparr>job_id = ''job_a'', poll_chanel = ''src'', post_chanel = ''dst'', textdelete = [],
      caption = [], post_by = ''user'', post_seasion = ''poster_a'', bot_token = [],
      last_ok_id = JInt 2000, last_error = [], paused_reason = [], created_ts = ''then'',
      updated_ts = ''then''\<rparr>"

definition poller_src :: poller where
  "poller_src =
     \<lparr>poll_session_name = ''poll_1'', session_index = Some 0, p_created_ts = ''then'',
      p_last_error = [], last_failover_ts = []\<rparr>"

definition world0 :: world where
  "world0 =
     \<lparr>sessions = [sess_poll, sess_post], pollers = [(''src'', poller_src)],
      jobs = [(''job_a'', job_a)], recent_by_session = [], recent_by_bot = [],
      dead_sessions = [], clock = 0, trace = []\<rparr>"

definition text_msg :: "int \<Rightarrow> string \<Rightarrow> int \<Rightarrow> msg" where
  "text_msg i t g =
     \<lparr>msg_id = i, message = t, grouped_id = g, entities = False, html = None,
      msg_media = NoMedia\<rparr>"

text \<open>The source has one new message, 2001.\<close>

definition env_one :: env where
  "env_one n = reply_ok\<lparr>r_fetch := Fetched [text_msg 2001 ''hi'' 0]\<rparr>"

text \<open>The source has a new album of three messages (the spec's scenario 6).\<close>

definition env_album :: env where
  "env_album n =
     reply_ok\<lparr>r_fetch := Fetched [text_msg 2001 [] 5, text_msg 2002 ''longest'' 5,
                                   text_msg 2003 ''x'' 5]\<rparr>"

text \<open>
  The source has two new albums: the older one (2001, 2002) has the larger group id 7,
  the newer one (2003, 2004) the smaller group id 3.
\<close>

definition env_two_albums :: env where
  "env_two_albums n =
     reply_ok\<lparr>r_fetch := Fetched [text_msg 2001 ''older'' 7, text_msg 2002 [] 7,
                                   text_msg 2003 ''newer'' 3, text_msg 2004 [] 3]\<rparr>"

text \<open>A third session, \<open>poll_2\<close>, online and in no role (the spec's scenario 3).\<close>

definition sess_poll2 :: sess where
  "sess_poll2 =
     \<lparr>sw_index = 2, sw_stem = ''poll_2'', sw_name = ''poll_2.session'', sw_client = True,
      sw_online = True, sw_last_check_ts = 0, sw_last_error = []\<rparr>"

definition world_three :: world where
  "world_three = world0\<lparr>sessions := [sess_poll, sess_post, sess_poll2]\<rparr>"

text \<open>A second job on the same source, already at 2002, posting to \<open>dst2\<close>.\<close>

definition job_b :: job where
  "job_b = job_a\<lparr>job_id := ''job_b'', post_chanel := ''dst2'', last_ok_id := JInt 2002\<rparr>"

definition world_two :: world where
  "world_two = world0\<lparr>jobs := [(''job_a'', job_a), (''job_b'', job_b)]\<rparr>"

text \<open>
  The request that adds the job of the small installation again, and a state in which
  that job is stored under its id without a \<open>last_ok_id\<close>.
\<close>

definition payload_a :: add_payload where
  "payload_a =
     \<lparr>a_poll_chanel = ''src'', a_post_chanel = ''dst'', a_textdelete = [], a_caption = [],
      a_delete = [], a_seasion = [], a_poll_seasion = [], a_post_by = ''user'',
      a_post_seasion = ''poster_a'', a_bot_token = []\<rparr>"

definition world_absent :: world where
  "world_absent =
     world0\<lparr>jobs := [(job_id_of ''src'' ''dst'' ''user'' ''poster_a'' [],
                       job_a\<lparr>last_ok_id := JAbsent\<rparr>)]\<rparr>"

text \<open>
  Two requests in the installation with the idle session \<open>poll_2\<close>: one that asks for the
  poll session \<open>poll_1\<close> as its post session and for a poll session that does not exist,
  and one that asks for \<open>poll_2\<close> both as poll session and as post session.
\<close>

definition payload_conflict :: add_payload where
  "payload_conflict =
     payload_a\<lparr>a_poll_chanel := ''src2'', a_poll_seasion := ''nope'', a_post_seasion := ''poll_1''\<rparr>"

definition payload_both :: add_payload where
  "payload_both =
     payload_a\<lparr>a_poll_chanel := ''src2'', a_poll_seasion := ''poll_2'', a_post_seasion := ''poll_2''\<rparr>"

section \<open>Facts about trimming\<close>

lemma lstrip_hd: "lstrip s \<noteq> [] \<Longrightarrow> \<not> isspace (hd (lstrip s))"
  unfolding lstrip_def by (simp add: hd_dropWhile)

lemma lstrip_noop: "s \<noteq> [] \<Longrightarrow> \<not> isspace (hd s) \<Longrightarrow> lstrip s = s"
  unfolding lstrip_def by (cases s) simp_all

lemma rstrip_noop: "s \<noteq> [] \<Longrightarrow> \<not> isspace (last s) \<Longrightarrow> rstrip s = s"
  unfolding rstrip_def by (cases s rule: rev_cases) simp_all

lemma rstrip_last: "rstrip s \<noteq> [] \<Longrightarrow> \<not> isspace (last (rstrip s))"
  unfolding rstrip_def by (simp add: last_rev hd_dropWhile)

lemma rstrip_hd: "rstrip s \<noteq> [] \<Longrightarrow> \<not> isspace (hd s) \<Longrightarrow> hd (rstrip s) = hd s"
proof (induction s rule: rev_induct)
  case Nil
  then show ?case by (simp add: rstrip_def)
next
  case (snoc x xs)
  show ?case
  proof (cases "isspace x")
    case True
    then have e: "rstrip (xs @ [x]) = rstrip xs" by (simp add: rstrip_def)
    with snoc.prems have ne: "rstrip xs \<noteq> []" by simp
    then have "xs \<noteq> []" by (auto simp: rstrip_def)
    with snoc ne e show ?thesis by simp
  next
    case False
    then show ?thesis by (simp add: rstrip_def)
  qed
qed

lemma strip_Nil: "strip [] = []"
  by (simp add: strip_def lstrip_def rstrip_def)

lemma strip_hd: "strip s \<noteq> [] \<Longrightarrow> \<not> isspace (hd (strip s))"
  unfolding strip_def
  by (metis lstrip_hd rstrip_hd rstrip_def rev.simps(1) dropWhile.simps(1))

lemma strip_last: "strip s \<noteq> [] \<Longrightarrow> \<not> isspace (last (strip s))"
  unfolding strip_def by (rule rstrip_last)

lemma strip_noop:
  "s \<noteq> [] \<Longrightarrow> \<not> isspace (hd s) \<Longrightarrow> \<not> isspace (last s) \<Longrightarrow> strip s = s"
  unfolding strip_def by (simp add: lstrip_noop rstrip_noop)

lemma strip_idem: "strip (strip s) = strip s"
proof (cases "strip s = []")
  case True
  with strip_Nil show ?thesis by simp
next
  case False
  then show ?thesis by (simp add: strip_noop strip_hd strip_last)
qed

lemma strip_join:
  assumes "a \<noteq> []" "\<not> isspace (hd a)" "b \<noteq> []" "\<not> isspace (last b)"
  shows "strip (a @ m @ b) = a @ m @ b"
  using assms by (intro strip_noop) (simp_all add: hd_append)

lemma append_caption_eq:
  "append_caption r cap =
     (if strip r = [] then strip cap
      else if strip cap = [] then strip r
      else strip r @ SEPARATOR @ strip cap)"
  by (simp add: append_caption_def Let_def strip_join strip_hd strip_last)

section \<open>The text pipeline of the republisher\<close>

text \<open>
  C3 (as the code has it).  With a non-empty \<open>text_strip\<close> every occurrence met by a scan
  from the left is removed and the result is trimmed; with an empty one the text is taken
  as it is.  The result and the caption are both trimmed before they are put together: the
  final text is the trimmed result, the separator and the trimmed caption when both are
  non-empty after trimming, the trimmed caption when the trimmed result is empty, and the
  trimmed result when the trimmed caption is empty (so the empty string when both are).
\<close>

theorem text_pipeline:
  "apply_textdelete text ts = (if ts = [] then text else strip (replace_del text ts))
   \<and> strip (apply_textdelete text ts) = (if ts = [] then strip text else apply_textdelete text ts)
   \<and> append_caption (apply_textdelete text ts) cap =
       (if strip (apply_textdelete text ts) = [] then strip cap
        else if strip cap = [] then strip (apply_textdelete text ts)
        else strip (apply_textdelete text ts) @ SEPARATOR @ strip cap)"
  by (simp add: append_caption_eq apply_textdelete_def strip_idem)

text \<open>
  The instance of the spec's scenario 5: \<open>text_strip = "promo"\<close>, caption \<open>"Mirrored"\<close>,
  message \<open>"hello promo world"\<close>.
\<close>

theorem text_pipeline_witness:
  "append_caption (apply_textdelete ''hello promo world'' ''promo'') ''Mirrored''
     = ''hello  world'' @ SEPARATOR @ ''Mirrored''"
proof -
  have a: "apply_textdelete ''hello promo world'' ''promo'' = ''hello  world''"
    by code_simp
  have b: "strip ''hello  world'' = ''hello  world''" and c: "strip ''Mirrored'' = ''Mirrored''"
    by code_simp+
  from text_pipeline [of "''hello promo world''" "''promo''" "''Mirrored''"]
  show ?thesis unfolding a b c by simp
qed

text \<open>
  C3 as the claim states it fails: for the message \<open>" hi"\<close> with no \<open>text_strip\<close> and the
  caption \<open>"c"\<close> the result \<open>" hi"\<close> and the caption are non-empty, and the final text is
  not the result followed by the separator and the caption (the leading blank is gone).
\<close>

theorem text_pipeline_counterexample:
  "apply_textdelete '' hi'' [] \<noteq> [] \<and> ''c'' \<noteq> []
   \<and> append_caption (apply_textdelete '' hi'' []) ''c''
       \<noteq> apply_textdelete '' hi'' [] @ SEPARATOR @ ''c''"
  by code_simp

section \<open>Unfolding on concrete inputs\<close>

lemmas str_defs = isspace_def lstrip_def rstrip_def strip_def lstrip_at_def latin1_small_def
  lower_char_def lower_def endswith_def norm_ch_def norm_session_name_def str_nat.simps
  str_int_def or_user_def apply_textdelete_def append_caption_def SEPARATOR_def

lemmas fixture_defs = reply_ok_def env_ok_def env_die_def cfg0_def sess_poll_def sess_post_def
  job_a_def poller_src_def world0_def text_msg_def env_one_def env_album_def env_two_albums_def
  job_b_def world_two_def payload_a_def world_absent_def sess_poll2_def world_three_def
  payload_conflict_def payload_both_def

lemmas eval_defs = str_defs fixture_defs Let_def tick_def emit_def session_display_name_def
  sess_key_def auth_outcome_def start_session_def check_session_health_def name_matches_def
  find_session_wrap_by_name_def ensure_join_def poll_sessions_def post_sessions_def
  online_sessions_snapshot_def poll_load_counts_def pick_step_def
  pick_poll_session_least_loaded_def bound_session_alive_def rebind_poller_def
  failover_poller_if_needed_def build_post_link_def
  ring_of_def ring_insert_def record_reup_session_def record_reup_bot_def fetch_bytes_def
  download_media_bytes_def bot_call_def bot_chat_id_from_channel_def bot_send_def
  repost_bot_def user_sent_def user_send_def post_session_die_def post_session_live_def
  repost_user_def media_step_def repost_single_def album_primary_def repost_album_def
  jobs_for_poll_def process_job_def process_message_for_jobs_def album_gids_def album_of_def
  singles_of_def process_album_def process_batch_def min_cursor_of_def collect_msgs_def
  fetch_and_process_def poll_with_session_def poll_one_channel_def cursor_of_def



section \<open>What each step leaves alone\<close>

lemma tick_simps [simp]:
  "sessions (tick w) = sessions w" "pollers (tick w) = pollers w" "jobs (tick w) = jobs w"
  "recent_by_session (tick w) = recent_by_session w" "recent_by_bot (tick w) = recent_by_bot w"
  "dead_sessions (tick w) = dead_sessions w" "trace (tick w) = trace w"
  "clock (tick w) = Suc (clock w)"
  by (simp_all add: tick_def)

lemma emit_simps [simp]:
  "sessions (emit e w) = sessions w" "pollers (emit e w) = pollers w" "jobs (emit e w) = jobs w"
  "recent_by_session (emit e w) = recent_by_session w" "recent_by_bot (emit e w) = recent_by_bot w"
  "dead_sessions (emit e w) = dead_sessions w" "trace (emit e w) = trace w @ [e]"
  "clock (emit e w) = clock w"
  by (simp_all add: emit_def)

lemma start_session_frame [simp]:
  "pollers (start_session env i w) = pollers w" "jobs (start_session env i w) = jobs w"
  "recent_by_session (start_session env i w) = recent_by_session w"
  "recent_by_bot (start_session env i w) = recent_by_bot w"
  "dead_sessions (start_session env i w) = dead_sessions w"
  "trace (start_session env i w) = trace w"
  "length (sessions (start_session env i w)) = length (sessions w)"
  by (simp_all add: start_session_def Let_def)

lemma check_session_health_frame [simp]:
  "pollers (check_session_health env i w) = pollers w"
  "jobs (check_session_health env i w) = jobs w"
  "recent_by_session (check_session_health env i w) = recent_by_session w"
  "recent_by_bot (check_session_health env i w) = recent_by_bot w"
  "dead_sessions (check_session_health env i w) = dead_sessions w"
  "trace (check_session_health env i w) = trace w"
  "length (sessions (check_session_health env i w)) = length (sessions w)"
  by (simp_all add: check_session_health_def Let_def)

lemma find_frame [simp]:
  "pollers (snd (find_session_wrap_by_name env n w)) = pollers w"
  "jobs (snd (find_session_wrap_by_name env n w)) = jobs w"
  "recent_by_session (snd (find_session_wrap_by_name env n w)) = recent_by_session w"
  "recent_by_bot (snd (find_session_wrap_by_name env n w)) = recent_by_bot w"
  "dead_sessions (snd (find_session_wrap_by_name env n w)) = dead_sessions w"
  "trace (snd (find_session_wrap_by_name env n w)) = trace w"
  "length (sessions (snd (find_session_wrap_by_name env n w))) = length (sessions w)"
  by (simp_all add: find_session_wrap_by_name_def Let_def split: option.splits)

lemma ensure_join_frame [simp]:
  "sessions (ensure_join env i ch w) = sessions w"
  "pollers (ensure_join env i ch w) = pollers w" "jobs (ensure_join env i ch w) = jobs w"
  "recent_by_session (ensure_join env i ch w) = recent_by_session w"
  "recent_by_bot (ensure_join env i ch w) = recent_by_bot w"
  "dead_sessions (ensure_join env i ch w) = dead_sessions w"
  by (simp_all add: ensure_join_def split: entity_result.splits)

lemma download_frame [simp]:
  "sessions (snd (download_media_bytes env c m w)) = sessions w"
  "pollers (snd (download_media_bytes env c m w)) = pollers w"
  "jobs (snd (download_media_bytes env c m w)) = jobs w"
  "recent_by_session (snd (download_media_bytes env c m w)) = recent_by_session w"
  "recent_by_bot (snd (download_media_bytes env c m w)) = recent_by_bot w"
  "dead_sessions (snd (download_media_bytes env c m w)) = dead_sessions w"
  "trace (snd (download_media_bytes env c m w)) = trace w"
  by (simp_all add: download_media_bytes_def fetch_bytes_def Let_def split: media.splits option.splits prod.splits)

lemma record_reup_session_frame [simp]:
  "sessions (record_reup_session env sw pn pe pnn mid w) = sessions w"
  "pollers (record_reup_session env sw pn pe pnn mid w) = pollers w"
  "jobs (record_reup_session env sw pn pe pnn mid w) = jobs w"
  "recent_by_bot (record_reup_session env sw pn pe pnn mid w) = recent_by_bot w"
  "dead_sessions (record_reup_session env sw pn pe pnn mid w) = dead_sessions w"
  "trace (record_reup_session env sw pn pe pnn mid w) = trace w"
  by (simp_all add: record_reup_session_def Let_def)

lemma record_reup_bot_frame [simp]:
  "sessions (record_reup_bot env tok pn pnn link w) = sessions w"
  "pollers (record_reup_bot env tok pn pnn link w) = pollers w"
  "jobs (record_reup_bot env tok pn pnn link w) = jobs w"
  "recent_by_session (record_reup_bot env tok pn pnn link w) = recent_by_session w"
  "dead_sessions (record_reup_bot env tok pn pnn link w) = dead_sessions w"
  "trace (record_reup_bot env tok pn pnn link w) = trace w"
  by (simp_all add: record_reup_bot_def Let_def)

lemma bot_send_frame [simp]:
  "sessions (snd (bot_send env d t b h w)) = sessions w"
  "pollers (snd (bot_send env d t b h w)) = pollers w"
  "jobs (snd (bot_send env d t b h w)) = jobs w"
  "recent_by_session (snd (bot_send env d t b h w)) = recent_by_session w"
  "recent_by_bot (snd (bot_send env d t b h w)) = recent_by_bot w"
  "dead_sessions (snd (bot_send env d t b h w)) = dead_sessions w"
  by (simp_all add: bot_send_def bot_call_def Let_def split: option.splits prod.splits bot_result.splits)



lemma bot_send_frameE:
  assumes "bot_send env d t b h w = (r, w')"
  shows "sessions w' = sessions w \<and> pollers w' = pollers w \<and> jobs w' = jobs w
     \<and> recent_by_session w' = recent_by_session w \<and> recent_by_bot w' = recent_by_bot w
     \<and> dead_sessions w' = dead_sessions w"
proof -
  from assms have "w' = snd (bot_send env d t b h w)" by simp
  then show ?thesis by simp
qed

lemma find_frameE:
  assumes "find_session_wrap_by_name env n w = (r, w')"
  shows "pollers w' = pollers w \<and> jobs w' = jobs w
     \<and> recent_by_session w' = recent_by_session w \<and> recent_by_bot w' = recent_by_bot w
     \<and> dead_sessions w' = dead_sessions w \<and> trace w' = trace w
     \<and> length (sessions w') = length (sessions w)"
proof -
  from assms have "w' = snd (find_session_wrap_by_name env n w)" by simp
  then show ?thesis by simp
qed

lemma download_frameE:
  assumes "download_media_bytes env c m w = (r, w')"
  shows "sessions w' = sessions w \<and> pollers w' = pollers w \<and> jobs w' = jobs w
     \<and> recent_by_session w' = recent_by_session w \<and> recent_by_bot w' = recent_by_bot w
     \<and> dead_sessions w' = dead_sessions w \<and> trace w' = trace w"
proof -
  from assms have "w' = snd (download_media_bytes env c m w)" by simp
  then show ?thesis by simp
qed

lemma repost_bot_frame:
  assumes "repost_bot env pn j ft h b w = (ok, j', w')"
  shows "pollers w' = pollers w \<and> jobs w' = jobs w \<and> sessions w' = sessions w
     \<and> dead_sessions w' = dead_sessions w \<and> recent_by_session w' = recent_by_session w"
  using assms
  by (auto simp: repost_bot_def Let_def split: prod.splits sum.splits if_splits
           dest!: bot_send_frameE)

lemma user_sent_frame:
  assumes "user_sent env pn j psw pe noid r w = (ok, j', w')"
  shows "pollers w' = pollers w \<and> jobs w' = jobs w \<and> sessions w' = sessions w
     \<and> dead_sessions w' = dead_sessions w \<and> recent_by_bot w' = recent_by_bot w"
  using assms
  by (auto simp: user_sent_def Let_def split: send_result.splits if_splits)

lemma user_send_frame:
  assumes "user_send env pn j m i pe ft ue b w = (ok, j', w')"
  shows "pollers w' = pollers w \<and> jobs w' = jobs w \<and> sessions w' = sessions w
     \<and> dead_sessions w' = dead_sessions w \<and> recent_by_bot w' = recent_by_bot w"
  using assms
  by (auto simp: user_send_def Let_def split: option.splits prod.splits if_splits
           dest!: user_sent_frame)

lemma post_session_die_frame:
  assumes "post_session_die env pn j i w = (ok, j', w')"
  shows "pollers w' = pollers w \<and> jobs w' = jobs w \<and> sessions w' = sessions w
     \<and> dead_sessions w' = dead_sessions w \<and> recent_by_bot w' = recent_by_bot w
     \<and> recent_by_session w' = recent_by_session w \<and> \<not> ok"
  using assms
  by (auto simp: post_session_die_def Let_def split: if_splits)

lemma post_session_live_frame:
  assumes "post_session_live env pn j m i ft ue b w = (ok, j', w')"
  shows "pollers w' = pollers w \<and> jobs w' = jobs w \<and> sessions w' = sessions w
     \<and> dead_sessions w' = dead_sessions w \<and> recent_by_bot w' = recent_by_bot w"
  using assms
  by (auto simp: post_session_live_def Let_def split: entity_result.splits
           dest!: user_send_frame)

lemma repost_user_frame:
  assumes "repost_user env pn j m ft ue b w = (ok, j', w')"
  shows "pollers w' = pollers w \<and> jobs w' = jobs w
     \<and> length (sessions w') = length (sessions w)
     \<and> dead_sessions w' = dead_sessions w \<and> recent_by_bot w' = recent_by_bot w"
  using assms
  by (auto simp: repost_user_def Let_def split: option.splits prod.splits if_splits
           dest!: find_frameE post_session_die_frame post_session_live_frame)

lemma media_step_frameE:
  assumes "media_step env c p m w = (r, w')"
  shows "sessions w' = sessions w \<and> pollers w' = pollers w \<and> jobs w' = jobs w
     \<and> recent_by_session w' = recent_by_session w \<and> recent_by_bot w' = recent_by_bot w
     \<and> dead_sessions w' = dead_sessions w \<and> trace w' = trace w"
  using assms by (auto simp: media_step_def split: if_splits dest!: download_frameE)

lemma repost_single_frame:
  assumes "repost_single env c p pn j m w = (ok, j', w')"
  shows "pollers w' = pollers w \<and> jobs w' = jobs w
     \<and> length (sessions w') = length (sessions w)
     \<and> dead_sessions w' = dead_sessions w"
  using assms
  by (auto simp: repost_single_def Let_def split: prod.splits if_splits
           dest!: media_step_frameE repost_bot_frame repost_user_frame)


section \<open>Recent-publish rings\<close>

lemma ring_of_insert:
  "ring_of (ring_insert k it rs) k' = (if k' = k then take 10 (it # ring_of rs k) else ring_of rs k')"
  by (simp add: ring_insert_def ring_of_def update_conv')

lemma repost_bot_rings:
  assumes "repost_bot env pn j ft h b w = (ok, j', w')"
  shows "recent_by_session w' = recent_by_session w
     \<and> (if ok then \<exists>item. recent_by_bot w' = ring_insert (bot_key (strip (bot_token j))) item (recent_by_bot w)
         else recent_by_bot w' = recent_by_bot w)"
  using assms
  by (auto simp: repost_bot_def Let_def record_reup_bot_def split: prod.splits sum.splits if_splits
           dest!: bot_send_frameE)

lemma user_sent_rings:
  assumes "user_sent env pn j psw pe noid r w = (ok, j', w')"
  shows "recent_by_bot w' = recent_by_bot w
     \<and> (if ok then \<exists>item. recent_by_session w' = ring_insert (sess_key psw) item (recent_by_session w)
         else recent_by_session w' = recent_by_session w)"
  using assms
  by (auto simp: user_sent_def Let_def record_reup_session_def split: send_result.splits if_splits)

lemma user_send_rings:
  assumes "user_send env pn j m i pe ft ue b w = (ok, j', w')"
  shows "recent_by_bot w' = recent_by_bot w
     \<and> (if ok then \<exists>item. recent_by_session w' = ring_insert (sess_key (sessions w ! i)) item (recent_by_session w)
         else recent_by_session w' = recent_by_session w)"
  using assms
  by (auto simp: user_send_def Let_def split: option.splits prod.splits if_splits
           dest!: user_sent_rings)


lemma find_index_from_SomeD:
  "find_index_from P n xs = Some i \<Longrightarrow> n \<le> i \<and> i < n + length xs \<and> P (xs ! (i - n))"
proof (induction xs arbitrary: n)
  case Nil
  then show ?case by simp
next
  case (Cons x xs)
  show ?case
  proof (cases "P x")
    case True
    with Cons.prems show ?thesis by simp
  next
    case False
    with Cons.prems have "find_index_from P (Suc n) xs = Some i" by simp
    from Cons.IH [OF this] show ?thesis by (auto simp: nth_Cons')
  qed
qed

lemma auth_outcome_fields [simp]:
  "sw_name (auth_outcome what r sw) = sw_name sw"
  "sw_stem (auth_outcome what r sw) = sw_stem sw"
  "sw_index (auth_outcome what r sw) = sw_index sw"
  "sw_client (auth_outcome what r sw) = sw_client sw"
  by (simp_all add: auth_outcome_def split: auth_result.splits)

lemma nth_update_field:
  assumes "k < length xs" and "f y = f (xs ! i)"
  shows "f (xs[i := y] ! k) = f (xs ! k)"
  using assms by (cases "i = k") auto

lemma start_session_name [simp]:
  assumes "k < length (sessions w)"
  shows "sw_name (sessions (start_session env i w) ! k) = sw_name (sessions w ! k)"
    and "sw_stem (sessions (start_session env i w) ! k) = sw_stem (sessions w ! k)"
    and "sw_index (sessions (start_session env i w) ! k) = sw_index (sessions w ! k)"
  using assms by (simp_all add: start_session_def Let_def nth_update_field)

lemma check_session_health_name [simp]:
  assumes "k < length (sessions w)"
  shows "sw_name (sessions (check_session_health env i w) ! k) = sw_name (sessions w ! k)"
    and "sw_stem (sessions (check_session_health env i w) ! k) = sw_stem (sessions w ! k)"
    and "sw_index (sessions (check_session_health env i w) ! k) = sw_index (sessions w ! k)"
  using assms by (simp_all add: check_session_health_def Let_def nth_update_field)

lemma find_SomeD:
  assumes "find_session_wrap_by_name env n w = (Some i, w')"
  shows "find_index_from (name_matches (lower (norm_session_name n))) 0 (sessions w) = Some i
     \<and> i < length (sessions w) \<and> w' = start_session env i w"
  using assms
  by (auto simp: find_session_wrap_by_name_def Let_def split: if_splits option.splits
           dest: find_index_from_SomeD)

lemma post_session_live_rings:
  assumes "post_session_live env pn j m i ft ue b w = (ok, j', w')"
  shows "recent_by_bot w' = recent_by_bot w
     \<and> (if ok then \<exists>item. recent_by_session w' = ring_insert (sess_key (sessions w ! i)) item (recent_by_session w)
         else recent_by_session w' = recent_by_session w)"
  using assms
  by (auto simp: post_session_live_def Let_def split: entity_result.splits if_splits
           dest!: user_send_rings)

lemma repost_user_rings:
  assumes "repost_user env pn j m ft ue b w = (ok, j', w')"
  shows "recent_by_bot w' = recent_by_bot w
     \<and> (if ok
         then \<exists>i item. find_index_from (name_matches (lower (norm_session_name (post_seasion j)))) 0
                          (sessions w) = Some i
                \<and> recent_by_session w' = ring_insert (sw_name (sessions w ! i)) item (recent_by_session w)
         else recent_by_session w' = recent_by_session w)"
proof (cases "post_seasion j = []")
  case True
  with assms show ?thesis by (auto simp: repost_user_def)
next
  case False
  obtain r w1 where f: "find_session_wrap_by_name env (post_seasion j) w = (r, w1)"
    by (cases "find_session_wrap_by_name env (post_seasion j) w")
  note fr = find_frameE [OF f]
  show ?thesis
  proof (cases r)
    case None
    with assms False f fr show ?thesis by (auto simp: repost_user_def)
  next
    case (Some i)
    note sd = find_SomeD [OF f [unfolded Some]]
    let ?w2 = "check_session_health env i w1"
    have key: "sess_key (sessions ?w2 ! i) = sw_name (sessions w ! i)"
      using sd by (simp add: sess_key_def)
    show ?thesis
    proof (cases "sw_client (sessions w1 ! i) \<and> sw_online (sessions ?w2 ! i)")
      case True
      with assms False f Some
      have "post_session_live env pn j m i ft ue b ?w2 = (ok, j', w')"
        by (simp add: repost_user_def Let_def)
      from post_session_live_rings [OF this] key sd fr show ?thesis
        by (auto split: if_splits)
    next
      case False
      with assms \<open>post_seasion j \<noteq> []\<close> f Some fr show ?thesis
        by (auto simp: repost_user_def Let_def split: if_splits dest!: post_session_die_frame)
    qed
  qed
qed

lemma bot_key_strip: "bot_key (strip t) = bot_key t"
  by (simp add: bot_key_def strip_idem)

lemma repost_single_rings:
  assumes "repost_single env c p pn j m w = (ok, j', w')"
  shows "if ok
     then if lower (or_user (post_by j)) = ''bot''
          then recent_by_session w' = recent_by_session w
            \<and> (\<exists>item. recent_by_bot w' = ring_insert (bot_key (bot_token j)) item (recent_by_bot w))
          else recent_by_bot w' = recent_by_bot w
            \<and> (\<exists>i item. find_index_from (name_matches (lower (norm_session_name (post_seasion j)))) 0
                          (sessions w) = Some i
                \<and> recent_by_session w' = ring_insert (sw_name (sessions w ! i)) item (recent_by_session w))
     else recent_by_session w' = recent_by_session w \<and> recent_by_bot w' = recent_by_bot w"
proof (cases "post_chanel j = []")
  case True
  with assms show ?thesis by (auto simp: repost_single_def)
next
  case False
  obtain blob w1 where ms: "media_step env c p m w = (blob, w1)"
    by (cases "media_step env c p m w")
  note fr = media_step_frameE [OF ms]
  show ?thesis
  proof (cases "lower (or_user (post_by j)) = ''bot''")
    case True
    with assms False ms obtain ft h where
      "repost_bot env pn j ft h blob w1 = (ok, j', w')"
      by (auto simp: repost_single_def Let_def)
    from repost_bot_rings [OF this] fr True show ?thesis
      by (auto simp: bot_key_strip split: if_splits)
  next
    case nb: False
    with assms False ms obtain ft ue where
      "repost_user env pn j m ft ue blob w1 = (ok, j', w')"
      by (auto simp: repost_single_def Let_def)
    from repost_user_rings [OF this] fr nb show ?thesis
      by (auto split: if_splits)
  qed
qed


text \<open>
  C8.  When a republish returns true, exactly one entry has been put in front of the ring
  of the publishing identity (the fingerprint of the job's bot token in bot mode, the file
  name of the session the job's post session name resolves to in user mode), that ring is
  cut to its first 10 entries, and no other ring has changed.  When it returns false no
  ring has changed.  So no ring ever grows beyond 10 entries, and the newest entry is first.
\<close>

theorem recent_ring:
  "let r = repost_single env c p pn j m w; w' = snd (snd r);
       bot = (lower (or_user (post_by j)) = ''bot'')
   in (if fst r
       then \<exists>key item.
          (if bot then key = bot_key (bot_token j)
           else \<exists>i. find_index_from (name_matches (lower (norm_session_name (post_seasion j)))) 0
                        (sessions w) = Some i
                   \<and> key = sw_name (sessions w ! i))
          \<and> (\<forall>k. ring_of (recent_by_bot w') k =
                 (if bot \<and> k = key then take 10 (item # ring_of (recent_by_bot w) k)
                  else ring_of (recent_by_bot w) k))
          \<and> (\<forall>k. ring_of (recent_by_session w') k =
                 (if \<not> bot \<and> k = key then take 10 (item # ring_of (recent_by_session w) k)
                  else ring_of (recent_by_session w) k))
       else recent_by_session w' = recent_by_session w \<and> recent_by_bot w' = recent_by_bot w)
      \<and> (\<forall>k. length (ring_of (recent_by_session w') k)
                 \<le> max 10 (length (ring_of (recent_by_session w) k)))
      \<and> (\<forall>k. length (ring_of (recent_by_bot w') k)
                 \<le> max 10 (length (ring_of (recent_by_bot w) k)))"
proof -
  obtain ok j' w' where r: "repost_single env c p pn j m w = (ok, j', w')"
    by (cases "repost_single env c p pn j m w")
  note rr = repost_single_rings [OF r]
  show ?thesis
  proof (cases ok)
    case False
    with rr r show ?thesis by (simp add: Let_def)
  next
    case True
    show ?thesis
    proof (cases "lower (or_user (post_by j)) = ''bot''")
      case bot: True
      with rr True obtain item where
        a: "recent_by_session w' = recent_by_session w"
        and b: "recent_by_bot w' = ring_insert (bot_key (bot_token j)) item (recent_by_bot w)"
        by auto
      have "\<exists>key item. key = bot_key (bot_token j)
          \<and> (\<forall>k. ring_of (recent_by_bot w') k =
                 (if k = key then take 10 (item # ring_of (recent_by_bot w) k)
                  else ring_of (recent_by_bot w) k))"
        using b by (auto simp: ring_of_insert)
      with r True bot a b show ?thesis
        by (auto simp: Let_def ring_of_insert)
    next
      case nb: False
      with rr True obtain i item where
        a: "recent_by_bot w' = recent_by_bot w"
        and f: "find_index_from (name_matches (lower (norm_session_name (post_seasion j)))) 0
                  (sessions w) = Some i"
        and b: "recent_by_session w' = ring_insert (sw_name (sessions w ! i)) item (recent_by_session w)"
        by auto
      have "\<exists>key item. (\<exists>i. find_index_from (name_matches (lower (norm_session_name (post_seasion j)))) 0
                        (sessions w) = Some i \<and> key = sw_name (sessions w ! i))
          \<and> (\<forall>k. ring_of (recent_by_session w') k =
                 (if k = key then take 10 (item # ring_of (recent_by_session w) k)
                  else ring_of (recent_by_session w) k))"
        using b f by (auto simp: ring_of_insert)
      with r True nb a b show ?thesis
        by (auto simp: Let_def ring_of_insert)
    qed
  qed
qed

text \<open>
  The instance: the job of the small installation republishes message 2001 through
  \<open>poster_a\<close>, whose ring was empty and now holds one entry.
\<close>

theorem recent_ring_witness:
  "fst (repost_single env_ok cfg0 0 ''src'' job_a (text_msg 2001 ''hi'' 0) world0)
   \<and> (\<exists>item. ring_of (recent_by_session
                  (snd (snd (repost_single env_ok cfg0 0 ''src'' job_a (text_msg 2001 ''hi'' 0) world0))))
                ''poster_a.session'' = [item])"
proof -
  let ?r = "repost_single env_ok cfg0 0 ''src'' job_a (text_msg 2001 ''hi'' 0) world0"
  have h: "fst ?r" by (simp add: eval_defs)
  have nb: "lower (or_user (post_by job_a)) \<noteq> ''bot''" by (simp add: eval_defs)
  have fi: "find_index_from (name_matches (lower (norm_session_name (post_seasion job_a)))) 0
              (sessions world0) = Some (Suc 0)"
    by (simp add: eval_defs)
  have nm: "sw_name (sessions world0 ! Suc 0) = ''poster_a.session''" by (simp add: eval_defs)
  have r0: "ring_of (recent_by_session world0) k = []" for k
    by (simp add: world0_def ring_of_def)
  from recent_ring [of env_ok cfg0 0 "''src''" job_a "text_msg 2001 ''hi'' 0" world0] h nb
  obtain key item where
    k: "\<exists>i. find_index_from (name_matches (lower (norm_session_name (post_seasion job_a)))) 0
               (sessions world0) = Some i \<and> key = sw_name (sessions world0 ! i)"
    and rs: "\<forall>k. ring_of (recent_by_session (snd (snd ?r))) k =
               (if k = key then take 10 (item # ring_of (recent_by_session world0) k)
                else ring_of (recent_by_session world0) k)"
    unfolding Let_def by auto
  from k fi nm have "key = ''poster_a.session''" by simp
  with rs r0 have "ring_of (recent_by_session (snd (snd ?r))) ''poster_a.session'' = [item]"
    by simp
  with h show ?thesis by blast
qed

section \<open>A dead post session\<close>

lemma repost_user_die:
  assumes f: "find_session_wrap_by_name env (post_seasion j) w = (Some i, w1)"
    and d: "\<not> sw_online (sessions (check_session_health env i w1) ! i)"
  shows "repost_user env pn j m ft ue b w =
           post_session_die env pn j i (check_session_health env i w1)"
proof -
  have ne: "post_seasion j \<noteq> []"
  proof
    assume "post_seasion j = []"
    then have "norm_session_name (post_seasion j) = []"
      by (simp add: norm_session_name_def strip_Nil)
    with f show False by (simp add: find_session_wrap_by_name_def lower_def)
  qed
  from find_SomeD [OF f] have lt: "i < length (sessions w)" and w1: "w1 = start_session env i w"
    by simp_all
  have "sw_client (sessions w1 ! i)"
    using lt unfolding w1 by (simp add: start_session_def Let_def)
  with f d ne show ?thesis by (simp add: repost_user_def Let_def)
qed

text \<open>
  C6 (as the code has it).  A user-mode republish whose post session is found but is not
  online after its health check returns false and sets \<open>paused_reason\<close> to
  \<open>post_session_die\<close>; it leaves the job's post session name, the rings, the jobs and the
  pollers as they are and makes no call to the outside but, possibly, one alert: nothing
  is sent, through that session or any other.  The alert goes out exactly when the wall
  clock, read in whole seconds at that attempt, is a multiple of 30.
\<close>

theorem post_session_die_hard_fail:
  assumes "post_chanel j \<noteq> []" and "lower (or_user (post_by j)) \<noteq> ''bot''"
    and "find_session_wrap_by_name env (post_seasion j) (snd (media_step env c p m w)) = (Some i, w1)"
    and "\<not> sw_online (sessions (check_session_health env i w1) ! i)"
  shows "let r = repost_single env c p pn j m w; j' = fst (snd r); w' = snd (snd r);
             w2 = check_session_health env i w1; post_sw = sessions w2 ! i
         in \<not> fst r
            \<and> j' = j\<lparr>last_error := ''POST session DIE: '' @ session_display_name post_sw
                                   @ '' ('' @ sw_last_error post_sw @ '')'',
                          paused_reason := ''post_session_die''\<rparr>
            \<and> trace w' = trace w @
                (if r_time (env (clock w2)) mod 30 = 0
                 then [AlertPostDie (job_id j) (norm_ch pn) (norm_ch (post_chanel j))
                         (session_display_name post_sw) (sw_last_error post_sw)]
                 else [])
            \<and> recent_by_session w' = recent_by_session w \<and> recent_by_bot w' = recent_by_bot w
            \<and> jobs w' = jobs w \<and> pollers w' = pollers w"
proof -
  obtain blob w0 where ms: "media_step env c p m w = (blob, w0)"
    by (cases "media_step env c p m w")
  note fr = media_step_frameE [OF ms]
  from assms(3) ms have f: "find_session_wrap_by_name env (post_seasion j) w0 = (Some i, w1)"
    by simp
  note ff = find_frameE [OF f]
  have "repost_single env c p pn j m w =
          post_session_die env pn j i (check_session_health env i w1)"
    using assms(1,2) ms repost_user_die [OF f assms(4)]
    by (simp add: repost_single_def Let_def)
  then show ?thesis
    using fr ff by (simp add: post_session_die_def Let_def)
qed

text \<open>
  The instance: in the small installation with every session dead, the attempt for
  message 2001 at second 60 fails, pauses the job and alerts once.
\<close>

theorem post_session_die_hard_fail_witness:
  "let r = repost_single env_die cfg0 0 ''src'' job_a (text_msg 2001 ''hi'' 0) world0
   in \<not> fst r \<and> paused_reason (fst (snd r)) = ''post_session_die''
      \<and> trace (snd (snd r)) =
          [AlertPostDie ''job_a'' ''src'' ''dst'' ''poster_a'' ''not authorized'']"
proof -
  have a: "post_chanel job_a \<noteq> []" and b: "lower (or_user (post_by job_a)) \<noteq> ''bot''"
    by (simp_all add: eval_defs)
  let ?w1 = "snd (find_session_wrap_by_name env_die (post_seasion job_a)
                   (snd (media_step env_die cfg0 0 (text_msg 2001 ''hi'' 0) world0)))"
  have f: "find_session_wrap_by_name env_die (post_seasion job_a)
             (snd (media_step env_die cfg0 0 (text_msg 2001 ''hi'' 0) world0)) = (Some (Suc 0), ?w1)"
    by (simp add: eval_defs)
  have d: "\<not> sw_online (sessions (check_session_health env_die (Suc 0) ?w1) ! Suc 0)"
    by (simp add: eval_defs)
  have e: "sessions (check_session_health env_die (Suc 0) ?w1) ! Suc 0
             = sess_post\<lparr>sw_last_check_ts := 60, sw_online := False, sw_last_error := ''not authorized''\<rparr>"
    by (simp add: eval_defs)
  have t: "r_time (env_die n) mod 30 = 0" for n by (simp add: eval_defs)
  from post_session_die_hard_fail [OF a b f d, of "''src''"] show ?thesis
    unfolding Let_def e by (simp add: t) (simp add: eval_defs)
qed

text \<open>
  C6 as the claim states it fails: two attempts one after the other, both within second
  60 of the wall clock, emit two alerts, which is more than one per 30 seconds.
\<close>

theorem post_session_die_alert_counterexample:
  "let a1 = repost_single env_die cfg0 0 ''src'' job_a (text_msg 2001 ''hi'' 0) world0;
       a2 = repost_single env_die cfg0 0 ''src'' (fst (snd a1)) (text_msg 2001 ''hi'' 0) (snd (snd a1))
   in (\<forall>n. r_time (env_die n) = 60)
      \<and> trace (snd (snd a2)) =
          [AlertPostDie ''job_a'' ''src'' ''dst'' ''poster_a'' ''not authorized'',
           AlertPostDie ''job_a'' ''src'' ''dst'' ''poster_a'' ''not authorized'']"
  by (simp add: eval_defs)

section \<open>The cursor of a job\<close>

lemma job_self [simp]: "\<exists>e pr. (j::job) = j\<lparr>last_error := e, paused_reason := pr\<rparr>"
  by (rule exI [of _ "last_error j"], rule exI [of _ "paused_reason j"]) simp

lemma repost_bot_job:
  assumes "repost_bot env pn j ft h b w = (ok, j', w')"
  shows "\<exists>e pr. j' = j\<lparr>last_error := e, paused_reason := pr\<rparr>"
proof -
  have a: "j\<lparr>last_error := e\<rparr> = j\<lparr>last_error := e, paused_reason := paused_reason j\<rparr>" for e
    by simp
  from assms show ?thesis
    by (auto simp: repost_bot_def Let_def split: prod.splits sum.splits if_splits intro: a)
qed

lemma user_sent_job:
  assumes "user_sent env pn j psw pe noid r w = (ok, j', w')"
  shows "\<exists>e pr. j' = j\<lparr>last_error := e, paused_reason := pr\<rparr>"
proof -
  have a: "j\<lparr>last_error := e\<rparr> = j\<lparr>last_error := e, paused_reason := paused_reason j\<rparr>" for e
    by simp
  from assms show ?thesis
    by (auto simp: user_sent_def Let_def split: send_result.splits if_splits intro: a)
qed

lemma user_send_job:
  assumes "user_send env pn j m i pe ft ue b w = (ok, j', w')"
  shows "\<exists>e pr. j' = j\<lparr>last_error := e, paused_reason := pr\<rparr>"
  using assms
  by (auto simp: user_send_def Let_def split: option.splits prod.splits if_splits
           dest!: user_sent_job)

lemma post_session_die_job:
  assumes "post_session_die env pn j i w = (ok, j', w')"
  shows "\<exists>e pr. j' = j\<lparr>last_error := e, paused_reason := pr\<rparr>"
  using assms by (auto simp: post_session_die_def Let_def split: if_splits)

lemma post_session_live_job:
  assumes "post_session_live env pn j m i ft ue b w = (ok, j', w')"
  shows "\<exists>e pr. j' = j\<lparr>last_error := e, paused_reason := pr\<rparr>"
proof -
  have a: "j\<lparr>last_error := e\<rparr> = j\<lparr>last_error := e, paused_reason := paused_reason j\<rparr>" for e
    by simp
  from assms show ?thesis
    by (auto simp: post_session_live_def Let_def split: entity_result.splits
             dest!: user_send_job intro: a)
qed

lemma repost_user_job:
  assumes "repost_user env pn j m ft ue b w = (ok, j', w')"
  shows "\<exists>e pr. j' = j\<lparr>last_error := e, paused_reason := pr\<rparr>"
proof -
  have a: "j\<lparr>last_error := e\<rparr> = j\<lparr>last_error := e, paused_reason := paused_reason j\<rparr>" for e
    by simp
  from assms show ?thesis
    by (auto simp: repost_user_def Let_def split: option.splits prod.splits if_splits
             dest!: post_session_die_job post_session_live_job intro: a)
qed

lemma repost_single_job:
  assumes "repost_single env c p pn j m w = (ok, j', w')"
  shows "\<exists>e pr. j' = j\<lparr>last_error := e, paused_reason := pr\<rparr>"
proof -
  have a: "j = j\<lparr>last_error := last_error j, paused_reason := paused_reason j\<rparr>"
    by simp
  from assms show ?thesis
    by (auto simp: repost_single_def Let_def split: prod.splits if_splits
             dest!: repost_bot_job repost_user_job intro: a)
qed

lemma repost_album_job:
  assumes "repost_album env c p pn j ms w = (ok, j', w')"
  shows "\<exists>e pr. j' = j\<lparr>last_error := e, paused_reason := pr\<rparr>"
proof -
  have a: "j = j\<lparr>last_error := last_error j, paused_reason := paused_reason j\<rparr>"
    by simp
  from assms show ?thesis
    by (auto simp: repost_album_def split: list.splits dest!: repost_single_job intro: a)
qed

lemma repost_album_frame:
  assumes "repost_album env c p pn j ms w = (ok, j', w')"
  shows "pollers w' = pollers w \<and> jobs w' = jobs w
     \<and> length (sessions w') = length (sessions w)
     \<and> dead_sessions w' = dead_sessions w"
  using assms
  by (auto simp: repost_album_def split: list.splits dest!: repost_single_frame)

text \<open>The republish attempt the loop body makes for one job.\<close>

lemma process_job_effect:
  fixes env c p pn m album w i
  assumes i: "i < length (jobs w)"
  defines "j \<equiv> snd (jobs w ! i)"
  defines "r \<equiv> (if album \<noteq> [] then repost_album env c p pn j album w
                 else repost_single env c p pn j m w)"
  defines "w' \<equiv> process_job env c p pn m album i w"
  shows "map fst (jobs w') = map fst (jobs w)"
    and "k \<noteq> i \<Longrightarrow> jobs w' ! k = jobs w ! k"
    and "cursor_at w' i = (if cursor_at w i < msg_id m \<and> fst r then msg_id m else cursor_at w i)"
    and "\<not> (cursor_at w i < msg_id m \<and> fst r) \<Longrightarrow> last_ok_id (snd (jobs w' ! i)) = last_ok_id j"
    and "pollers w' = pollers w"
proof -
  obtain key where kj: "jobs w ! i = (key, j)" unfolding j_def by (cases "jobs w ! i") simp
  obtain ok j1 w1 where r: "r = (ok, j1, w1)" by (cases r)
  have fr: "jobs w1 = jobs w \<and> pollers w1 = pollers w"
    using r repost_album_frame repost_single_frame unfolding r_def
    by (metis (full_types))
  have jb: "last_ok_id j1 = last_ok_id j"
  proof -
    from r have "\<exists>e pr. j1 = j\<lparr>last_error := e, paused_reason := pr\<rparr>"
      unfolding r_def using repost_album_job repost_single_job by (metis (full_types))
    then show ?thesis by auto
  qed
  have w': "w' = (if msg_id m \<le> cursor_of (last_ok_id j) then w
                  else if ok then w1\<lparr>jobs := (jobs w)[i := (key, j1\<lparr>last_ok_id := JInt (msg_id m),
                                            last_error := [], paused_reason := []\<rparr>)]\<rparr>
                  else w1\<lparr>jobs := (jobs w)[i := (key, j1)]\<rparr>)"
    using kj r fr unfolding w'_def process_job_def r_def by (simp add: Let_def)
  have mf: "map fst ((jobs w)[i := (key, x)]) = map fst (jobs w)" for x
  proof -
    from kj i have "map fst (jobs w) ! i = key" by simp
    then have "(map fst (jobs w))[i := key] = map fst (jobs w)" by (metis list_update_id)
    then show ?thesis by (simp add: map_update)
  qed
  show "map fst (jobs w') = map fst (jobs w)" unfolding w' by (simp add: mf)
  show "k \<noteq> i \<Longrightarrow> jobs w' ! k = jobs w ! k" unfolding w' by simp
  show "cursor_at w' i = (if cursor_at w i < msg_id m \<and> fst r then msg_id m else cursor_at w i)"
    unfolding w' using i kj r jb by (simp add: cursor_at_def cursor_of_def)
  show "\<not> (cursor_at w i < msg_id m \<and> fst r) \<Longrightarrow> last_ok_id (snd (jobs w' ! i)) = last_ok_id j"
    unfolding w' using i kj r jb by (auto simp: cursor_at_def)
  show "pollers w' = pollers w" unfolding w' using fr by simp
qed










lemma failover_frame [simp]:
  "jobs (failover_poller_if_needed env pn w) = jobs w"
  "recent_by_session (failover_poller_if_needed env pn w) = recent_by_session w"
  "recent_by_bot (failover_poller_if_needed env pn w) = recent_by_bot w"
  "dead_sessions (failover_poller_if_needed env pn w) = dead_sessions w"
  "length (sessions (failover_poller_if_needed env pn w)) = length (sessions w)"
  by (auto simp: failover_poller_if_needed_def bound_session_alive_def rebind_poller_def Let_def
           split: option.splits prod.splits if_splits bool.splits dest!: find_frameE)




section \<open>Albums\<close>

lemma sends_simps [simp]:
  "sends (tick w) = sends w"
  "sends (emit e w) = sends w @ (if is_send e then [e] else [])"
  "sends (start_session env i w) = sends w"
  "sends (check_session_health env i w) = sends w"
  "sends (snd (find_session_wrap_by_name env n w)) = sends w"
  "sends (ensure_join env i ch w) = sends w"
  "sends (snd (download_media_bytes env c m w)) = sends w"
  "sends (record_reup_session env sw pn pe pnn mid w) = sends w"
  "sends (record_reup_bot env tok pn pnn link w) = sends w"
  by (simp_all add: sends_def ensure_join_def split: entity_result.splits)

lemma sends_upd [simp]:
  "sends (w\<lparr>jobs := x\<rparr>) = sends w" "sends (w\<lparr>sessions := y\<rparr>) = sends w"
  "sends (w\<lparr>pollers := z\<rparr>) = sends w"
  by (simp_all add: sends_def)

lemma sends_media_step:
  "media_step env c p m w = (r, w') \<Longrightarrow> sends w' = sends w"
  using media_step_frameE [of env c p m w r w'] by (simp add: sends_def)

lemma sends_find:
  "find_session_wrap_by_name env n w = (r, w') \<Longrightarrow> sends w' = sends w"
  using find_frameE [of env n w r w'] by (simp add: sends_def)

lemma bot_send_sends:
  assumes "bot_send env d t b h w = (r, w')"
  shows "\<exists>e. sends w' = sends w @ [e]"
  using assms
  by (auto simp: bot_send_def bot_call_def Let_def
           split: option.splits prod.splits if_splits bot_result.splits)

lemma repost_bot_sends:
  assumes "repost_bot env pn j ft h b w = (ok, j', w')"
  shows "\<exists>evs. sends w' = sends w @ evs \<and> length evs \<le> 1 \<and> (if ok then length evs = 1 else True)"
  using assms
  by (auto simp: repost_bot_def Let_def split: prod.splits sum.splits if_splits
           dest!: bot_send_sends)

lemma user_sent_sends:
  assumes "user_sent env pn j psw pe noid r w = (ok, j', w')"
  shows "sends w' = sends w"
  using assms
  by (auto simp: user_sent_def Let_def split: send_result.splits if_splits)

lemma user_send_sends:
  assumes "user_send env pn j m i pe ft ue b w = (ok, j', w')"
  shows "\<exists>e. sends w' = sends w @ [e]"
  using assms
  by (auto simp: user_send_def Let_def split: option.splits prod.splits if_splits
           dest!: user_sent_sends)

lemma post_session_die_sends:
  assumes "post_session_die env pn j i w = (ok, j', w')"
  shows "sends w' = sends w \<and> \<not> ok"
  using assms by (auto simp: post_session_die_def Let_def split: if_splits)

lemma post_session_live_sends:
  assumes "post_session_live env pn j m i ft ue b w = (ok, j', w')"
  shows "\<exists>evs. sends w' = sends w @ evs \<and> length evs \<le> 1 \<and> (if ok then length evs = 1 else True)"
  using assms
  by (auto simp: post_session_live_def Let_def split: entity_result.splits
           dest!: user_send_sends)

lemma repost_user_sends:
  assumes "repost_user env pn j m ft ue b w = (ok, j', w')"
  shows "\<exists>evs. sends w' = sends w @ evs \<and> length evs \<le> 1 \<and> (if ok then length evs = 1 else True)"
proof (cases "post_seasion j = []")
  case True
  with assms show ?thesis by (auto simp: repost_user_def)
next
  case False
  obtain r w1 where f: "find_session_wrap_by_name env (post_seasion j) w = (r, w1)"
    by (cases "find_session_wrap_by_name env (post_seasion j) w")
  note sf = sends_find [OF f]
  show ?thesis
  proof (cases r)
    case None
    with assms False f sf show ?thesis by (auto simp: repost_user_def)
  next
    case (Some i)
    let ?w2 = "check_session_health env i w1"
    show ?thesis
    proof (cases "sw_client (sessions w1 ! i)")
      case nc: False
      with assms \<open>post_seasion j \<noteq> []\<close> f Some sf show ?thesis by (auto simp: repost_user_def)
    next
      case cl: True
      show ?thesis
      proof (cases "sw_online (sessions ?w2 ! i)")
        case True
        with assms \<open>post_seasion j \<noteq> []\<close> f Some cl
        have "post_session_live env pn j m i ft ue b ?w2 = (ok, j', w')"
          by (simp add: repost_user_def Let_def)
        from post_session_live_sends [OF this] sf show ?thesis by simp
      next
        case False
        with assms \<open>post_seasion j \<noteq> []\<close> f Some cl
        have "post_session_die env pn j i ?w2 = (ok, j', w')"
          by (simp add: repost_user_def Let_def)
        from post_session_die_sends [OF this] sf show ?thesis by simp
      qed
    qed
  qed
qed

lemma repost_single_sends:
  assumes "repost_single env c p pn j m w = (ok, j', w')"
  shows "\<exists>evs. sends w' = sends w @ evs \<and> length evs \<le> 1 \<and> (if ok then length evs = 1 else True)"
proof (cases "post_chanel j = []")
  case True
  with assms show ?thesis by (auto simp: repost_single_def)
next
  case False
  obtain blob w1 where ms: "media_step env c p m w = (blob, w1)"
    by (cases "media_step env c p m w")
  note sm = sends_media_step [OF ms]
  show ?thesis
  proof (cases "lower (or_user (post_by j)) = ''bot''")
    case True
    with assms False ms obtain ft h where
      "repost_bot env pn j ft h blob w1 = (ok, j', w')"
      by (auto simp: repost_single_def Let_def)
    from repost_bot_sends [OF this] sm show ?thesis by simp
  next
    case nb: False
    with assms False ms obtain ft ue where
      "repost_user env pn j m ft ue blob w1 = (ok, j', w')"
      by (auto simp: repost_single_def Let_def)
    from repost_user_sends [OF this] sm show ?thesis by simp
  qed
qed

lemma album_primary_fold:
  "foldl (\<lambda>best x. if length (message best) < length (message x) then x else best) b ms = r
   \<Longrightarrow> (r = b \<and> (\<forall>x \<in> set ms. length (message x) \<le> length (message b)))
     \<or> (\<exists>ys zs. ms = ys @ r # zs \<and> length (message b) < length (message r)
          \<and> (\<forall>y \<in> set ys. length (message y) < length (message r))
          \<and> (\<forall>z \<in> set zs. length (message z) \<le> length (message r)))"
proof (induction ms arbitrary: b)
  case Nil
  then show ?case by simp
next
  case (Cons x xs)
  show ?case
  proof (cases "length (message b) < length (message x)")
    case True
    with Cons.prems have
      "foldl (\<lambda>best x. if length (message best) < length (message x) then x else best) x xs = r"
      by simp
    from Cons.IH [OF this] show ?thesis
    proof
      assume "r = x \<and> (\<forall>y \<in> set xs. length (message y) \<le> length (message x))"
      with True have "x # xs = [] @ r # xs \<and> length (message b) < length (message r)
          \<and> (\<forall>z \<in> set xs. length (message z) \<le> length (message r))" by simp
      then show ?thesis by (metis empty_iff list.set(1))
    next
      assume "\<exists>ys zs. xs = ys @ r # zs \<and> length (message x) < length (message r)
          \<and> (\<forall>y \<in> set ys. length (message y) < length (message r))
          \<and> (\<forall>z \<in> set zs. length (message z) \<le> length (message r))"
      then obtain ys zs where a: "xs = ys @ r # zs" "length (message x) < length (message r)"
          "\<forall>y \<in> set ys. length (message y) < length (message r)"
          "\<forall>z \<in> set zs. length (message z) \<le> length (message r)" by blast
      with True have "x # xs = (x # ys) @ r # zs \<and> length (message b) < length (message r)
          \<and> (\<forall>y \<in> set (x # ys). length (message y) < length (message r))
          \<and> (\<forall>z \<in> set zs. length (message z) \<le> length (message r))" by auto
      then show ?thesis by blast
    qed
  next
    case False
    with Cons.prems have
      "foldl (\<lambda>best x. if length (message best) < length (message x) then x else best) b xs = r"
      by simp
    from Cons.IH [OF this] show ?thesis
    proof
      assume "r = b \<and> (\<forall>y \<in> set xs. length (message y) \<le> length (message b))"
      with False show ?thesis by auto
    next
      assume "\<exists>ys zs. xs = ys @ r # zs \<and> length (message b) < length (message r)
          \<and> (\<forall>y \<in> set ys. length (message y) < length (message r))
          \<and> (\<forall>z \<in> set zs. length (message z) \<le> length (message r))"
      then obtain ys zs where a: "xs = ys @ r # zs" "length (message b) < length (message r)"
          "\<forall>y \<in> set ys. length (message y) < length (message r)"
          "\<forall>z \<in> set zs. length (message z) \<le> length (message r)" by blast
      with False have "x # xs = (x # ys) @ r # zs \<and> length (message b) < length (message r)
          \<and> (\<forall>y \<in> set (x # ys). length (message y) < length (message r))
          \<and> (\<forall>z \<in> set zs. length (message z) \<le> length (message r))" by auto
      then show ?thesis by blast
    qed
  qed
qed

lemma album_primary_first_longest:
  "\<exists>ys zs. m # ms = ys @ album_primary m ms # zs
      \<and> (\<forall>y \<in> set ys. length (message y) < length (message (album_primary m ms)))
      \<and> (\<forall>z \<in> set zs. length (message z) \<le> length (message (album_primary m ms)))"
proof -
  from album_primary_fold [OF refl, of m ms, folded album_primary_def]
  show ?thesis
  proof
    assume a: "album_primary m ms = m \<and> (\<forall>x \<in> set ms. length (message x) \<le> length (message m))"
    then have "m # ms = [] @ album_primary m ms # ms
        \<and> (\<forall>z \<in> set ms. length (message z) \<le> length (message (album_primary m ms)))" by simp
    then show ?thesis by (metis empty_iff list.set(1))
  next
    assume "\<exists>ys zs. ms = ys @ album_primary m ms # zs
        \<and> length (message m) < length (message (album_primary m ms))
        \<and> (\<forall>y \<in> set ys. length (message y) < length (message (album_primary m ms)))
        \<and> (\<forall>z \<in> set zs. length (message z) \<le> length (message (album_primary m ms)))"
    then obtain ys zs where "ms = ys @ album_primary m ms # zs"
        "length (message m) < length (message (album_primary m ms))"
        "\<forall>y \<in> set ys. length (message y) < length (message (album_primary m ms))"
        "\<forall>z \<in> set zs. length (message z) \<le> length (message (album_primary m ms))" by blast
    then have "m # ms = (m # ys) @ album_primary m ms # zs
        \<and> (\<forall>y \<in> set (m # ys). length (message y) < length (message (album_primary m ms)))
        \<and> (\<forall>z \<in> set zs. length (message z) \<le> length (message (album_primary m ms)))" by auto
    then show ?thesis by blast
  qed
qed


lemma sorted_last_max:
  assumes "sorted (map f xs)" and "xs \<noteq> []"
  shows "\<forall>x \<in> set xs. f x \<le> f (last xs)"
  using assms
proof (induction xs rule: rev_induct)
  case Nil
  then show ?case by simp
next
  case (snoc y ys)
  then show ?case by (auto simp: sorted_append)
qed

lemma album_of_sorted: "sorted (map msg_id (album_of msgs gid))"
  by (simp add: album_of_def)

lemma album_primary_props:
  assumes a: "album = m # ms" and s: "sorted (map msg_id album)"
  shows "album_primary m ms \<in> set album"
    and "\<forall>x \<in> set album. length (message x) \<le> length (message (album_primary m ms))"
    and "\<forall>x \<in> set album. length (message x) = length (message (album_primary m ms))
            \<longrightarrow> msg_id (album_primary m ms) \<le> msg_id x"
proof -
  from album_primary_first_longest [of m ms] obtain ys zs where
    d: "album = ys @ album_primary m ms # zs"
    and y: "\<forall>y \<in> set ys. length (message y) < length (message (album_primary m ms))"
    and z: "\<forall>z \<in> set zs. length (message z) \<le> length (message (album_primary m ms))"
    unfolding a by blast
  have st: "set album = set ys \<union> {album_primary m ms} \<union> set zs"
    by (subst d) auto
  show "album_primary m ms \<in> set album" by (simp add: st)
  show "\<forall>x \<in> set album. length (message x) \<le> length (message (album_primary m ms))"
    using y z by (auto simp: st)
  from s have "sorted (map msg_id (ys @ album_primary m ms # zs))" by (subst (asm) d)
  then have "\<forall>z \<in> set zs. msg_id (album_primary m ms) \<le> msg_id z"
    by (auto simp: sorted_append)
  with y show "\<forall>x \<in> set album. length (message x) = length (message (album_primary m ms))
            \<longrightarrow> msg_id (album_primary m ms) \<le> msg_id x"
    by (auto simp: st)
qed

lemma process_job_skip:
  assumes "msg_id m \<le> cursor_at w i"
  shows "process_job env c p pn m album i w = w"
proof -
  obtain k j where kj: "jobs w ! i = (k, j)" by (cases "jobs w ! i")
  with assms show ?thesis by (simp add: process_job_def cursor_at_def)
qed

lemma process_job_trace:
  assumes "\<not> msg_id m \<le> cursor_at w i"
  shows "trace (process_job env c p pn m album i w) =
           trace (snd (snd (if album \<noteq> [] then repost_album env c p pn (snd (jobs w ! i)) album w
                            else repost_single env c p pn (snd (jobs w ! i)) m w)))"
proof -
  obtain k j where kj: "jobs w ! i = (k, j)" by (cases "jobs w ! i")
  define R where "R = (if album \<noteq> [] then repost_album env c p pn j album w
                       else repost_single env c p pn j m w)"
  obtain ok j1 w1 where r: "R = (ok, j1, w1)" by (cases R)
  have "process_job env c p pn m album i w =
      (if ok then w1\<lparr>jobs := (jobs w1)[i := (k, j1\<lparr>last_ok_id := JInt (msg_id m),
                                  last_error := [], paused_reason := []\<rparr>)]\<rparr>
       else w1\<lparr>jobs := (jobs w1)[i := (k, j1)]\<rparr>)"
    unfolding process_job_def using assms kj r [unfolded R_def]
    by (simp add: cursor_at_def Let_def)
  then have "trace (process_job env c p pn m album i w) = trace w1" by simp
  also have "\<dots> = trace (snd (snd R))" using r by simp
  finally show ?thesis using kj unfolding R_def by simp
qed


text \<open>
  C2 (as the code has it).  An album is the list of the batch's messages of one group id
  in ascending id order.  Its primary is a member with the longest text, and among those
  the one with the lowest id; no member has an id above the last one's.  For a job whose
  cursor is below the id of the album's last member, the loop body makes exactly the calls
  of one republish of the primary: at most one send, and exactly one when the republish
  returns true; the cursor then becomes the id of the album's last member, and stays as it
  was when the republish returns false.  For a job whose cursor is not below that id
  nothing happens.
\<close>

theorem album_collapse:
  assumes "album = album_of msgs gid" and "album \<noteq> []" and "i < length (jobs w)"
  shows "let prim = album_primary (hd album) (tl album);
             top = last album;
             r = repost_single env c p pn (snd (jobs w ! i)) prim w;
             w' = process_job env c p pn top album i w
         in prim \<in> set album
            \<and> (\<forall>x \<in> set album. length (message x) \<le> length (message prim))
            \<and> (\<forall>x \<in> set album. length (message x) = length (message prim)
                   \<longrightarrow> msg_id prim \<le> msg_id x)
            \<and> (\<forall>x \<in> set album. msg_id x \<le> msg_id top)
            \<and> (if cursor_at w i < msg_id top
                then trace w' = trace (snd (snd r))
                   \<and> (\<exists>evs. sends w' = sends w @ evs \<and> length evs \<le> 1
                          \<and> (if fst r then length evs = 1 else True))
                   \<and> cursor_at w' i = (if fst r then msg_id top else cursor_at w i)
                else w' = w)"
proof -
  from assms(2) have a: "album = hd album # tl album" by simp
  from assms(1) have s: "sorted (map msg_id album)" by (simp add: album_of_sorted)
  note pp = album_primary_props [OF a s]
  note top = sorted_last_max [OF s assms(2)]
  let ?prim = "album_primary (hd album) (tl album)"
  let ?r = "repost_single env c p pn (snd (jobs w ! i)) ?prim w"
  let ?w' = "process_job env c p pn (last album) album i w"
  have ra: "repost_album env c p pn (snd (jobs w ! i)) album w = ?r"
    by (subst a) (simp add: repost_album_def)
  have tr: "trace ?w' = trace (snd (snd ?r))" if "cursor_at w i < msg_id (last album)"
    using process_job_trace [of "last album" w i env c p pn album] assms(2) ra that
    by simp
  obtain ok j' w1 where r: "?r = (ok, j', w1)" by (cases ?r)
  from repost_single_sends [OF r] obtain evs where
    ev: "sends w1 = sends w @ evs" "length evs \<le> 1" "if ok then length evs = 1 else True"
    by blast
  have sd: "\<exists>evs. sends ?w' = sends w @ evs \<and> length evs \<le> 1
               \<and> (if fst ?r then length evs = 1 else True)"
    if "cursor_at w i < msg_id (last album)"
  proof -
    from tr [OF that] r have "sends ?w' = sends w1" by (simp add: sends_def)
    with ev r show ?thesis by auto
  qed
  have cu: "cursor_at ?w' i = (if fst ?r then msg_id (last album) else cursor_at w i)"
    if "cursor_at w i < msg_id (last album)"
    using process_job_effect(3) [where env = env and c = c and p = p and pn = pn
        and m = "last album" and album = album, OF assms(3)] assms(2) ra that
    by simp
  have sk: "?w' = w" if "\<not> cursor_at w i < msg_id (last album)"
    using that by (simp add: process_job_skip)
  have last: "if cursor_at w i < msg_id (last album)
        then trace ?w' = trace (snd (snd ?r))
           \<and> (\<exists>evs. sends ?w' = sends w @ evs \<and> length evs \<le> 1
                  \<and> (if fst ?r then length evs = 1 else True))
           \<and> cursor_at ?w' i = (if fst ?r then msg_id (last album) else cursor_at w i)
        else ?w' = w"
  proof (cases "cursor_at w i < msg_id (last album)")
    case True
    from tr [OF True] sd [OF True] cu [OF True] True show ?thesis by (simp only: if_True)
  next
    case False
    from sk [OF False] False show ?thesis by (simp only: if_False)
  qed
  from pp top last show ?thesis unfolding Let_def by blast
qed


text \<open>
  The instance, the album of the spec's scenario 6: the primary is message 2002, one
  message with the text \<open>longest\<close> is sent, and the cursor becomes 2003.
\<close>

theorem album_collapse_witness:
  "let album = album_of [text_msg 2001 [] 5, text_msg 2002 ''longest'' 5, text_msg 2003 ''x'' 5] 5;
       w' = process_job env_ok cfg0 0 ''src'' (last album) album 0 world0
   in album_primary (hd album) (tl album) = text_msg 2002 ''longest'' 5
      \<and> msg_id (last album) = 2003
      \<and> cursor_at w' 0 = 2003
      \<and> sends w' = [SendMessage ''poster_a.session'' ''dst'' ''longest'']"
proof -
  let ?album = "album_of [text_msg 2001 [] 5, text_msg 2002 ''longest'' 5, text_msg 2003 ''x'' 5] 5"
  have al: "?album = [text_msg 2001 [] 5, text_msg 2002 ''longest'' 5, text_msg 2003 ''x'' 5]"
    by (simp add: album_of_def text_msg_def)
  have ne: "?album \<noteq> []" unfolding al by simp
  have i: "0 < length (jobs world0)" by (simp add: world0_def)
  have pr: "album_primary (hd ?album) (tl ?album) = text_msg 2002 ''longest'' 5"
    unfolding al by (simp add: album_primary_def text_msg_def)
  have tp: "msg_id (last ?album) = 2003" unfolding al by (simp add: text_msg_def)
  have c0: "cursor_at world0 0 < 2003" by (simp add: eval_defs cursor_at_def)
  have ok: "fst (repost_single env_ok cfg0 0 ''src'' (snd (jobs world0 ! 0))
                   (text_msg 2002 ''longest'' 5) world0)"
    by (simp add: eval_defs)
  have sn: "sends (snd (snd (repost_single env_ok cfg0 0 ''src'' (snd (jobs world0 ! 0))
                   (text_msg 2002 ''longest'' 5) world0)))
              = [SendMessage ''poster_a.session'' ''dst'' ''longest'']"
    by (simp add: eval_defs sends_def)
  from album_collapse [OF refl ne i, of env_ok cfg0 0 "''src''"]
  show ?thesis
    unfolding Let_def pr tp using c0 ok sn by (simp add: sends_def)
qed

text \<open>
  C2 as the claim states it fails: one poll of the source with the album 2001, 2002, 2003
  (texts empty, \<open>longest\<close>, \<open>x\<close>) sends \<open>longest\<close> once and leaves the cursor at 2003, not
  at the primary's 2002; and of two members with texts of the same length the primary is
  the one with the lower id.
\<close>

theorem album_collapse_counterexample:
  "cursor_at (poll_one_channel env_album cfg0 ''src'' world0) 0 = 2003
   \<and> cursor_at (poll_one_channel env_album cfg0 ''src'' world0) 0 \<noteq> 2002
   \<and> sends (poll_one_channel env_album cfg0 ''src'' world0)
       = [SendMessage ''poster_a.session'' ''dst'' ''longest'']
   \<and> msg_id (album_primary (text_msg 2001 ''a'' 5) [text_msg 2002 ''b'' 5]) = 2001"
  by (simp add: eval_defs cursor_at_def sends_def)

text \<open>
  C4, the order of the albums.  The batch holds the album 2001, 2002 with group id 7 and
  the album 2003, 2004 with group id 3.  The loop goes through the albums in the order of
  their group ids, 3 before 7: the newer album is republished and takes the cursor to
  2004, and the older album, whose members have the smaller ids, is then behind the
  cursor and is never sent.
\<close>

theorem albums_in_group_id_order:
  "album_gids [text_msg 2001 ''older'' 7, text_msg 2002 [] 7,
               text_msg 2003 ''newer'' 3, text_msg 2004 [] 3] = [3, 7]
   \<and> sends (poll_one_channel env_two_albums cfg0 ''src'' world0)
       = [SendMessage ''poster_a.session'' ''dst'' ''newer'']
   \<and> cursor_at (poll_one_channel env_two_albums cfg0 ''src'' world0) 0 = 2004"
  by (simp add: eval_defs cursor_at_def sends_def)

section \<open>What an /add request changes\<close>





lemma upsert_poller_frame [simp]:
  "jobs (upsert_poller env pn psn idx w) = jobs w"
  "recent_by_session (upsert_poller env pn psn idx w) = recent_by_session w"
  "recent_by_bot (upsert_poller env pn psn idx w) = recent_by_bot w"
  "dead_sessions (upsert_poller env pn psn idx w) = dead_sessions w"
  "sessions (upsert_poller env pn psn idx w) = sessions w"
  "trace (upsert_poller env pn psn idx w) = trace w"
  by (simp_all add: upsert_poller_def split: option.splits)









section \<open>Cursors over polls and /add requests\<close>







section \<open>Failover of a dead poll session\<close>











end
